theory Spec2Isabelle
  imports
    Main
    "HOL-Library.Word"
    "HOL-Library.Multiset"
    "HOL-Library.Char_ord"
    "HOL-Library.List_Lexorder"
begin

unbundle bit_operations_syntax

section \<open>The pod lifecycle controller of jetpack (pod.go)\<close>

text \<open>
  This theory embeds \<^verbatim>\<open>src/jetpack/pod.go\<close>. Every method of \<^verbatim>\<open>Pod\<close> that the
  verified properties mention is a HOL function of the same name. A method that mutates
  its receiver returns the updated pod; a method that calls the operating system, the
  image store, the dataset manager or an external program appends the call to a trace
  and reads the call's outcome from an oracle over the trace so far. A Go \<^verbatim>\<open>error\<close>
  return and a Go \<^verbatim>\<open>panic\<close> are both values of the type \<open>failure\<close>.
\<close>

subsection \<open>Data model\<close>

text \<open>
  The manifest types come from the appc schema library. Only the fields that
  \<^verbatim>\<open>pod.go\<close> reads or writes are kept, under the library's names with a prefix that
  tells the records apart.
\<close>

type_synonym ACName = string

record MountPoint =
  mp_Name :: ACName
  mp_Path :: string
  mp_ReadOnly :: bool

record App =
  app_Exec :: "string list"
  app_User :: string
  app_Group :: string
  app_WorkingDirectory :: string
  app_Environment :: "(string \<times> string) list"
  app_MountPoints :: "MountPoint list"

record Mount =
  mnt_Volume :: ACName
  mnt_MountPoint :: ACName

record Volume =
  vol_Name :: ACName
  vol_Kind :: string
  vol_Source :: string
  vol_ReadOnly :: "bool option"

record RuntimeApp =
  rta_Name :: ACName
  rta_ImageID :: string
  rta_App :: "App option"
  rta_Mounts :: "Mount list"

record Isolator =
  iso_Name :: ACName
  iso_Value :: string

type_synonym Annotations = "(ACName \<times> string) list"

record PodManifest =
  Apps :: "RuntimeApp list"
  Volumes :: "Volume list"
  Isolators :: "Isolator list"
  Annotations :: Annotations

record ImageManifest =
  im_Name :: string
  im_Labels :: "(ACName \<times> string) list"
  im_App :: "App option"

record Image =
  img_Manifest :: ImageManifest

text \<open>
  The host is declared outside \<^verbatim>\<open>pod.go\<close>. Its path resolution \<^verbatim>\<open>Host.Path\<close> and its
  property store are taken as they come: \<open>host_Path\<close> is the function from path
  elements to a path, \<open>host_Properties\<close> the table behind \<^verbatim>\<open>MustGetString\<close>, and
  \<open>host_GetBool\<close> the lookup \<^verbatim>\<open>Properties.GetBool\<close>.
\<close>

record Host =
  host_Path :: "string list \<Rightarrow> string"
  host_Properties :: "string \<rightharpoonup> string"
  host_GetBool :: "string \<Rightarrow> bool \<Rightarrow> bool"

text \<open>The field \<open>UUID\<close> holds the UUID in the form that \<^verbatim>\<open>UUID.String()\<close> renders.\<close>

record Pod =
  UUID :: string
  Host :: Host
  Manifest :: PodManifest
  sealed :: bool

record JailStatus =
  Jid :: int
  Dying :: bool

datatype PodStatus =
  PodStatusInvalid | PodStatusRunning | PodStatusDying | PodStatusStopped

text \<open>
  Modelled from the spec: the sentinel \<^verbatim>\<open>NoJailStatus\<close> is declared outside
  \<^verbatim>\<open>pod.go\<close>. The spec describes a jail status as a numeric job id, 0 meaning not
  running, with a dying flag; the sentinel for "no such jail" is the status with job id 0
  and the flag clear, the zero value of the struct.
\<close>

definition NoJailStatus :: JailStatus where
  "NoJailStatus = \<lparr>Jid = 0, Dying = False\<rparr>"

subsection \<open>Errors and panics\<close>

text \<open>
  \<open>oserror\<close> is an error handed back by an external call; \<open>ENOENT\<close> is the one that
  \<^verbatim>\<open>os.IsNotExist\<close> recognises (for the dataset manager: \<^verbatim>\<open>zfs.ErrNotFound\<close>).
  \<^verbatim>\<open>errors.Trace\<close> only annotates an error with a source location, so it is the
  identity here.
\<close>

datatype oserror = ENOENT | EOther string

datatype error = ErrNotFound | Errorf string | External oserror

datatype failure = Error error | Panic string | PanicError error

subsection \<open>The outside world\<close>

text \<open>
  An \<open>event\<close> is one call that leaves the process. File modes are the numbers the source
  writes in octal.
\<close>

datatype event =
    ReadFile string
  | WriteFile string string nat
  | MkdirAll string nat
  | Stat string
  | Chmod string "32 word"
  | Chown string int int
  | RemoveAll string
  | GetImageByHash string
  | GetJailStatus string bool
  | RunCommand string "string list"
  | GetDataset string
  | DatasetDestroy string string
  | Printf_dying
  | Sleep nat

type_synonym trace = "event list"

record Stat_t =
  st_Mode :: "16 word"
  st_Uid :: "32 word"
  st_Gid :: "32 word"

text \<open>
  The world answers each call from the history of calls made so far. \<open>call_err\<close> answers
  the calls that return only an error (\<open>None\<close> is success); the other fields answer the
  calls that return data. \<open>json_Marshal\<close> and \<open>json_Unmarshal\<close> are the JSON codec of
  the standard library together with the schema library's own marshalling methods;
  unmarshalling fills an existing manifest and may leave it changed even when it fails.
  \<open>map_order\<close> is the order in which the Go runtime happens to enumerate the entries of
  a map.
\<close>

record world =
  call_err :: "trace \<Rightarrow> event \<Rightarrow> oserror option"
  read_data :: "trace \<Rightarrow> string \<Rightarrow> oserror + string"
  stat_data :: "trace \<Rightarrow> string \<Rightarrow> oserror + Stat_t"
  image_of :: "trace \<Rightarrow> string \<Rightarrow> oserror + Image"
  jail_status :: "trace \<Rightarrow> string \<Rightarrow> bool \<Rightarrow> oserror + JailStatus"
  dataset_of :: "trace \<Rightarrow> string \<Rightarrow> oserror + string"
  json_Marshal :: "PodManifest \<Rightarrow> oserror + string"
  json_Unmarshal :: "string \<Rightarrow> PodManifest \<Rightarrow> oserror option \<times> PodManifest"
  map_order :: "(string \<times> string) list \<Rightarrow> (string \<times> string) list"

definition perform :: "world \<Rightarrow> event \<Rightarrow> trace \<Rightarrow> oserror option \<times> trace" where
  "perform w e t = (call_err w t e, t @ [e])"

definition ioutil_ReadFile :: "world \<Rightarrow> string \<Rightarrow> trace \<Rightarrow> (oserror + string) \<times> trace" where
  "ioutil_ReadFile w p t = (read_data w t p, t @ [ReadFile p])"

definition ioutil_WriteFile ::
  "world \<Rightarrow> string \<Rightarrow> string \<Rightarrow> nat \<Rightarrow> trace \<Rightarrow> oserror option \<times> trace" where
  "ioutil_WriteFile w p bb mode t = perform w (WriteFile p bb mode) t"

definition os_Stat :: "world \<Rightarrow> string \<Rightarrow> trace \<Rightarrow> (oserror + Stat_t) \<times> trace" where
  "os_Stat w p t = (stat_data w t p, t @ [Stat p])"

text \<open>The file modes that the source writes in octal.\<close>

abbreviation mode_0400 :: nat where "mode_0400 \<equiv> 0x100"
abbreviation mode_0600 :: nat where "mode_0600 \<equiv> 0x180"
abbreviation mode_0644 :: nat where "mode_0644 \<equiv> 0x1A4"
abbreviation mode_0700 :: nat where "mode_0700 \<equiv> 0x1C0"

subsection \<open>Manifest store\<close>

definition Path :: "Pod \<Rightarrow> string list \<Rightarrow> string" where
  "Path c elem = host_Path (Host c) ([''pods'', UUID c] @ elem)"

definition Save :: "world \<Rightarrow> Pod \<Rightarrow> trace \<Rightarrow> (failure + unit) \<times> Pod \<times> trace" where
  "Save w c t =
    (case json_Marshal w (Manifest c) of
       Inl err \<Rightarrow> (Inl (Error (External err)), c, t)
     | Inr manifestJSON \<Rightarrow>
         (case ioutil_WriteFile w (Path c [''manifest'']) manifestJSON mode_0400 t of
            (Some err, t') \<Rightarrow> (Inl (Error (External err)), c, t')
          | (None, t') \<Rightarrow> (Inr (), c\<lparr>sealed := True\<rparr>, t')))"

definition Exists :: "world \<Rightarrow> Pod \<Rightarrow> trace \<Rightarrow> (failure + bool) \<times> trace" where
  "Exists w c t =
    (case os_Stat w (Path c [''manifest'']) t of
       (Inl ENOENT, t') \<Rightarrow> (Inr False, t')
     | (Inl err, t') \<Rightarrow> (Inl (PanicError (External err)), t')
     | (Inr st, t') \<Rightarrow> (Inr True, t'))"

definition readManifest :: "world \<Rightarrow> Pod \<Rightarrow> trace \<Rightarrow> (failure + unit) \<times> Pod \<times> trace" where
  "readManifest w c t =
    (case ioutil_ReadFile w (Path c [''manifest'']) t of
       (Inl err, t') \<Rightarrow> (Inl (Error (External err)), c, t')
     | (Inr manifestJSON, t') \<Rightarrow>
         (case json_Unmarshal w manifestJSON (Manifest c) of
            (Some err, m) \<Rightarrow> (Inl (Error (External err)), c\<lparr>Manifest := m\<rparr>, t')
          | (None, m) \<Rightarrow> (Inr (), c\<lparr>Manifest := m\<rparr>, t')))"

definition Load :: "world \<Rightarrow> Pod \<Rightarrow> trace \<Rightarrow> (failure + unit) \<times> Pod \<times> trace" where
  "Load w c t =
    (if sealed c then (Inl (Panic ''tried to load an already sealed pod''), c, t)
     else
       (case Exists w c t of
          (Inl f, t1) \<Rightarrow> (Inl f, c, t1)
        | (Inr False, t1) \<Rightarrow> (Inl (Error ErrNotFound), c, t1)
        | (Inr True, t1) \<Rightarrow>
            (case readManifest w c t1 of
               (Inl f, c2, t2) \<Rightarrow> (Inl f, c2, t2)
             | (Inr u, c2, t2) \<Rightarrow>
                 if length (Apps (Manifest c2)) = 0 then
                   (Inl (Error (Errorf ''No application set?'')), c2, t2)
                 else if length (Apps (Manifest c2)) > 1 then
                   (Inl (Error (Errorf ''TODO: Multi-application pods are not supported'')),
                    c2, t2)
                 else if length (Isolators (Manifest c2)) \<noteq> 0 then
                   (Inl (Error (Errorf ''TODO: isolators are not supported'')), c2, t2)
                 else (Inr (), c2\<lparr>sealed := True\<rparr>, t2))))"

text \<open>
  \<^verbatim>\<open>LoadPod\<close> builds a fresh pod, whose manifest is the zero value and whose sealed flag
  is clear, and loads it. The argument is \<open>None\<close> for a nil UUID.
\<close>

definition zero_PodManifest :: PodManifest where
  "zero_PodManifest = \<lparr>Apps = [], Volumes = [], Isolators = [], Annotations = []\<rparr>"

definition LoadPod ::
  "world \<Rightarrow> Host \<Rightarrow> string option \<Rightarrow> trace \<Rightarrow> (failure + Pod) \<times> trace" where
  "LoadPod w h uuid t =
    (case uuid of
       None \<Rightarrow> (Inl (Panic ''No UUID provided''), t)
     | Some i \<Rightarrow>
         (case Load w \<lparr>UUID = i, Host = h, Manifest = zero_PodManifest, sealed = False\<rparr> t of
            (Inl f, pod, t') \<Rightarrow> (Inl f, t')
          | (Inr u, pod, t') \<Rightarrow> (Inr pod, t')))"

subsection \<open>Library functions used by the jail configuration builder\<close>

text \<open>
  \<^verbatim>\<open>Annotations.Get\<close> returns the value of the first annotation whose name is the given
  string. \<^verbatim>\<open>Annotations.Set\<close> overwrites the first annotation whose name equals the given
  one, or appends one; it compares with \<^verbatim>\<open>ACName.Equals\<close>, which compares the names
  in lower case. \<open>ToLower\<close> folds the letters A to Z, which is \<^verbatim>\<open>strings.ToLower\<close> on
  a name in ASCII, as every valid name is.
\<close>

fun Annotations_Get :: "Annotations \<Rightarrow> string \<Rightarrow> string option" where
  "Annotations_Get [] name = None"
| "Annotations_Get (anno # a) name =
     (if fst anno = name then Some (snd anno) else Annotations_Get a name)"

definition ToLower :: "string \<Rightarrow> string" where
  "ToLower s =
     map (\<lambda>ch. if (0x41::nat) \<le> of_char ch \<and> of_char ch \<le> (0x5A::nat)
               then char_of (of_char ch + (0x20::nat)) else ch) s"

definition ACName_Equals :: "ACName \<Rightarrow> ACName \<Rightarrow> bool" where
  "ACName_Equals n o' = (ToLower n = ToLower o')"

fun Annotations_Set :: "Annotations \<Rightarrow> ACName \<Rightarrow> string \<Rightarrow> Annotations" where
  "Annotations_Set [] name val = [(name, val)]"
| "Annotations_Set (anno # a) name val =
     (if ACName_Equals (fst anno) name then (name, val) # a
      else anno # Annotations_Set a name val)"

text \<open>
  \<^verbatim>\<open>MustGetString\<close> of the property store panics on an unknown key. The text of the
  panic belongs to the property library; only the fact that it is a panic matters here.
\<close>

definition MustGetString :: "Host \<Rightarrow> string \<Rightarrow> failure + string" where
  "MustGetString h key =
    (case host_Properties h key of
       None \<Rightarrow> Inl (Panic (''unknown property: '' @ key))
     | Some v \<Rightarrow> Inr v)"

definition HasPrefix :: "string \<Rightarrow> string \<Rightarrow> bool" where
  "HasPrefix s pre = (length pre \<le> length s \<and> take (length pre) s = pre)"

text \<open>\<^verbatim>\<open>strings.Replace(s, "-", "_", -1)\<close>: every hyphen becomes an underscore.\<close>

definition Replace_hyphens :: "string \<Rightarrow> string" where
  "Replace_hyphens s = map (\<lambda>ch. if ch = CHR ''-'' then CHR ''_'' else ch) s"

fun Join :: "string list \<Rightarrow> string \<Rightarrow> string" where
  "Join [] sep = []"
| "Join [x] sep = x"
| "Join (x # y # ys) sep = x @ sep @ Join (y # ys) sep"

text \<open>
  The verb \<^verbatim>\<open>%#v\<close> prints a string as \<^verbatim>\<open>strconv.Quote\<close> does: between double quotes,
  with the quote and the backslash escaped, the control characters written as escapes,
  and printable ASCII as it is. \<open>Quote\<close> is \<^verbatim>\<open>strconv.Quote\<close> on the strings that are
  valid UTF-8 and whose characters outside ASCII are all printable: it keeps every byte
  above the ASCII range as it is. On other strings \<^verbatim>\<open>strconv.Quote\<close> differs: it
  writes a byte that is not valid UTF-8 as a hexadecimal escape and a character that is
  not printable as a Unicode escape. No property below depends on how a value is quoted.
\<close>

definition hexdigit :: "nat \<Rightarrow> char" where
  "hexdigit n = ''0123456789abcdef'' ! (n mod 16)"

definition Quote_char :: "char \<Rightarrow> string" where
  "Quote_char ch =
    (let n = (of_char ch :: nat) in
     if ch = CHR 0x22 \<or> ch = CHR 0x5C then [CHR 0x5C, ch]
     else if 0x20 \<le> n \<and> n < 0x7F then [ch]
     else if n = 0x07 then [CHR 0x5C, CHR ''a'']
     else if n = 0x08 then [CHR 0x5C, CHR ''b'']
     else if n = 0x0C then [CHR 0x5C, CHR ''f'']
     else if n = 0x0A then [CHR 0x5C, CHR ''n'']
     else if n = 0x0D then [CHR 0x5C, CHR ''r'']
     else if n = 0x09 then [CHR 0x5C, CHR ''t'']
     else if n = 0x0B then [CHR 0x5C, CHR ''v'']
     else if n < 0x20 \<or> n = 0x7F then [CHR 0x5C, CHR ''x'', hexdigit (n div 16), hexdigit n]
     else [ch])"

definition Quote :: "string \<Rightarrow> string" where
  "Quote s = [CHR 0x22] @ concat (map Quote_char s) @ [CHR 0x22]"

text \<open>A Go map with string keys: assignment replaces the value of a key or adds the key.\<close>

fun map_assign :: "(string \<times> string) list \<Rightarrow> string \<Rightarrow> string \<Rightarrow> (string \<times> string) list" where
  "map_assign [] k v = [(k, v)]"
| "map_assign (p # ps) k v = (if fst p = k then (k, v) # ps else p # map_assign ps k v)"

text \<open>Reading a key that the map does not hold gives the empty string.\<close>

definition map_index :: "(string \<times> string) list \<Rightarrow> string \<Rightarrow> string" where
  "map_index ps k = (case map_of ps k of None \<Rightarrow> [] | Some v \<Rightarrow> v)"

subsection \<open>Jail configuration builder\<close>

definition jailName :: "Pod \<Rightarrow> failure + string" where
  "jailName c =
    (case MustGetString (Host c) ''jail.namePrefix'' of
       Inl f \<Rightarrow> Inl f
     | Inr namePrefix \<Rightarrow> Inr (namePrefix @ UUID c))"

text \<open>The loop over the annotations that injects the keys under the reserved prefix.\<close>

fun jailConf_annotations ::
  "Annotations \<Rightarrow> (string \<times> string) list \<Rightarrow> (string \<times> string) list" where
  "jailConf_annotations [] parameters = parameters"
| "jailConf_annotations (antn # rest) parameters =
     jailConf_annotations rest
       (if HasPrefix (fst antn) ''jetpack/jail.conf/''
        then map_assign parameters
               (Replace_hyphens (drop (length ''jetpack/jail.conf/'') (fst antn))) (snd antn)
        else parameters)"

text \<open>
  The parameter table of \<^verbatim>\<open>jailConf\<close>, as it stands when the lines are rendered. The
  map literal evaluates \<^verbatim>\<open>MustGetString("jail.interface")\<close>, which may panic, before
  anything else can fail.
\<close>

definition jailConf_parameters :: "Pod \<Rightarrow> failure + (string \<times> string) list" where
  "jailConf_parameters c =
    (case MustGetString (Host c) ''jail.interface'' of
       Inl f \<Rightarrow> Inl f
     | Inr interface \<Rightarrow>
         let parameters =
               [(''devfs_ruleset'', ''4''),
                (''exec.clean'', ''true''),
                (''host.hostuuid'', UUID c),
                (''interface'', interface),
                (''mount.devfs'', ''true''),
                (''path'', Path c [''rootfs'']),
                (''persist'', ''true'')];
             parameters =
               (case Annotations_Get (Annotations (Manifest c)) ''hostname'' of
                  Some hostname \<Rightarrow> map_assign parameters ''host.hostname'' hostname
                | None \<Rightarrow>
                    map_assign parameters ''host.hostname''
                      (map_index parameters ''host.hostuuid''))
         in (case Annotations_Get (Annotations (Manifest c)) ''ip-address'' of
               Some ip \<Rightarrow>
                 Inr (jailConf_annotations (Annotations (Manifest c))
                        (map_assign parameters ''ip4.addr'' ip))
             | None \<Rightarrow> Inl (Panic (''No IP address for pod '' @ UUID c))))"

definition jailConf_line :: "string \<times> string \<Rightarrow> string" where
  "jailConf_line kv = ''  '' @ fst kv @ ''='' @ Quote (snd kv) @ '';''"

definition jailConf_lines :: "world \<Rightarrow> (string \<times> string) list \<Rightarrow> string list" where
  "jailConf_lines w parameters = sort (map jailConf_line (map_order w parameters))"

definition jailConf :: "world \<Rightarrow> Pod \<Rightarrow> failure + string" where
  "jailConf w c =
    (case jailConf_parameters c of
       Inl f \<Rightarrow> Inl f
     | Inr parameters \<Rightarrow>
         (case jailName c of
            Inl f \<Rightarrow> Inl f
          | Inr name \<Rightarrow>
              Inr (Quote name @ '' {'' @ [CHR 0x0A]
                   @ Join (jailConf_lines w parameters) [CHR 0x0A]
                   @ [CHR 0x0A] @ ''}'' @ [CHR 0x0A])))"

subsection \<open>Mount resolver\<close>

text \<open>\<^verbatim>\<open>strconv.Itoa\<close>, in decimal.\<close>

fun Itoa_nat :: "nat \<Rightarrow> string" where
  "Itoa_nat n =
    (if n < 10 then [''0123456789'' ! n]
     else Itoa_nat (n div 10) @ [''0123456789'' ! (n mod 10)])"

definition Itoa :: "int \<Rightarrow> string" where
  "Itoa i = (if i < 0 then ''-'' @ Itoa_nat (nat (- i)) else Itoa_nat (nat i))"

text \<open>\<^verbatim>\<open>ImageManifest.GetLabel\<close>: the value of the first label with the name, else empty.\<close>

definition GetLabel :: "ImageManifest \<Rightarrow> string \<Rightarrow> string" where
  "GetLabel m name = (case map_of (im_Labels m) name of None \<Rightarrow> [] | Some v \<Rightarrow> v)"

definition GetImageByHash_call :: "world \<Rightarrow> string \<Rightarrow> trace \<Rightarrow> (oserror + Image) \<times> trace" where
  "GetImageByHash_call w h t = (image_of w t h, t @ [GetImageByHash h])"

text \<open>
  The search for the volume of a binding: the first volume of the manifest with the
  name, with its index; \<open>None\<close> stands for \<^verbatim>\<open>volNo < 0\<close>.
\<close>

fun findVolume :: "Volume list \<Rightarrow> ACName \<Rightarrow> nat \<Rightarrow> (Volume \<times> nat) option" where
  "findVolume [] name i = None"
| "findVolume (cvol # rest) name i =
     (if vol_Name cvol = name then Some (cvol, i) else findVolume rest name (Suc i))"

fun findMountPoint :: "MountPoint list \<Rightarrow> ACName \<Rightarrow> MountPoint option" where
  "findMountPoint [] name = None"
| "findMountPoint (mntp # rest) name =
     (if mp_Name mntp = name then Some mntp else findMountPoint rest name)"

text \<open>
  The branch for a volume of kind \<^verbatim>\<open>empty\<close>: allocate the directory of the volume and
  copy mode and ownership from the mount point in the root filesystem, if it is there.
\<close>

definition prepJail_empty ::
  "world \<Rightarrow> Pod \<Rightarrow> nat \<Rightarrow> string \<Rightarrow> trace \<Rightarrow> (failure + string) \<times> trace" where
  "prepJail_empty w c volNo podPath t =
    (let hostPath = Path c [''volumes'', Itoa (int volNo)] in
     case perform w (MkdirAll hostPath mode_0700) t of
       (Some err, t1) \<Rightarrow> (Inl (Error (External err)), t1)
     | (None, t1) \<Rightarrow>
         (case os_Stat w podPath t1 of
            (Inl ENOENT, t2) \<Rightarrow> (Inr hostPath, t2)
          | (Inl err, t2) \<Rightarrow> (Inl (Error (External err)), t2)
          | (Inr st, t2) \<Rightarrow>
              (case perform w (Chmod hostPath (ucast (st_Mode st AND 0xFFF))) t2 of
                 (Some err, t3) \<Rightarrow> (Inl (Error (External err)), t3)
               | (None, t3) \<Rightarrow>
                   (case perform w (Chown hostPath (uint (st_Uid st)) (uint (st_Gid st))) t3 of
                      (Some err, t4) \<Rightarrow> (Inl (Error (External err)), t4)
                    | (None, t4) \<Rightarrow> (Inr hostPath, t4)))))"

definition fstab_binding :: "string \<Rightarrow> string \<Rightarrow> string \<Rightarrow> string" where
  "fstab_binding hostPath podPath opts =
     hostPath @ '' '' @ podPath @ '' nullfs '' @ opts @ '' 0 0'' @ [CHR 0x0A]"

text \<open>
  The loop over the bindings of the app. \<open>fulfilled\<close> holds the names that the source
  sets to true in \<^verbatim>\<open>fulfilledMountPoints\<close>.
\<close>

fun prepJail_mounts ::
  "world \<Rightarrow> Pod \<Rightarrow> App \<Rightarrow> Mount list \<Rightarrow> ACName list \<Rightarrow> string list \<Rightarrow> trace
   \<Rightarrow> (failure + ACName list \<times> string list) \<times> trace" where
  "prepJail_mounts w c imgApp [] fulfilled fstab t = (Inr (fulfilled, fstab), t)"
| "prepJail_mounts w c imgApp (mnt # rest) fulfilled fstab t =
    (case findVolume (Volumes (Manifest c)) (mnt_Volume mnt) 0 of
       None \<Rightarrow> (Inl (Error (Errorf (''Volume not found: '' @ mnt_Volume mnt))), t)
     | Some (vol, volNo) \<Rightarrow>
         (case findMountPoint (app_MountPoints imgApp) (mnt_MountPoint mnt) of
            None \<Rightarrow>
              (Inl (Error (Errorf (''No mount point found: '' @ mnt_MountPoint mnt))), t)
          | Some mntPoint \<Rightarrow>
              (let podPath = Path c [''rootfs'', mp_Path mntPoint] in
               case (if vol_Kind vol = ''empty'' then prepJail_empty w c volNo podPath t
                     else (Inr (vol_Source vol), t)) of
                 (Inl f, t1) \<Rightarrow> (Inl f, t1)
               | (Inr hostPath, t1) \<Rightarrow>
                   (let opts = (if vol_ReadOnly vol = Some True \<or> mp_ReadOnly mntPoint
                                then ''ro'' else ''rw'')
                    in prepJail_mounts w c imgApp rest
                         (mnt_MountPoint mnt # fulfilled)
                         (fstab @ [fstab_binding hostPath podPath opts]) t1))))"

text \<open>The verb \<^verbatim>\<open>%v\<close> on a slice of names: the names between brackets, space-separated.\<close>

definition fmt_names :: "ACName list \<Rightarrow> string" where
  "fmt_names names = ''['' @ Join names '' '' @ '']''"

text \<open>The loop over the apps of the manifest; it returns the lines of the mount table.\<close>

fun prepJail_apps ::
  "world \<Rightarrow> Pod \<Rightarrow> RuntimeApp list \<Rightarrow> string list \<Rightarrow> trace
   \<Rightarrow> (failure + string list) \<times> trace" where
  "prepJail_apps w c [] fstab t = (Inr fstab, t)"
| "prepJail_apps w c (app # rest) fstab t =
    (case GetImageByHash_call w (rta_ImageID app) t of
       (Inl err, t1) \<Rightarrow> (Inl (Error (External err)), t1)
     | (Inr img, t1) \<Rightarrow>
         (let fstab1 =
                (if GetLabel (img_Manifest img) ''os'' = ''linux''
                 then fstab @
                   [''linsys '' @ Path c [''rootfs'', ''sys''] @ '' linsysfs  rw 0 0''
                      @ [CHR 0x0A],
                    ''linproc '' @ Path c [''rootfs'', ''proc''] @ '' linprocfs rw 0 0''
                      @ [CHR 0x0A]]
                 else fstab)
          in case ioutil_ReadFile w ''/etc/resolv.conf'' t1 of
               (Inl err, t2) \<Rightarrow> (Inl (Error (External err)), t2)
             | (Inr bb, t2) \<Rightarrow>
                 (case ioutil_WriteFile w (Path c [''rootfs/etc/resolv.conf'']) bb
                         mode_0644 t2 of
                    (Some err, t3) \<Rightarrow> (Inl (Error (External err)), t3)
                  | (None, t3) \<Rightarrow>
                      (case im_App (img_Manifest img) of
                         None \<Rightarrow> prepJail_apps w c rest fstab1 t3
                       | Some imgApp \<Rightarrow>
                           (case prepJail_mounts w c imgApp (rta_Mounts app) [] fstab1 t3 of
                              (Inl f, t4) \<Rightarrow> (Inl f, t4)
                            | (Inr (fulfilled, fstab2), t4) \<Rightarrow>
                                (let unfulfilled =
                                       map mp_Name
                                         (filter (\<lambda>mntp. mp_Name mntp \<notin> set fulfilled)
                                            (app_MountPoints imgApp))
                                 in if length unfulfilled > 0 then
                                      (Inl (Error (Errorf
                                         (''Unfulfilled mount points for ''
                                          @ im_Name (img_Manifest img) @ '': ''
                                          @ fmt_names unfulfilled))), t4)
                                    else prepJail_apps w c rest fstab2 t4))))))"

definition prepJail :: "world \<Rightarrow> Pod \<Rightarrow> trace \<Rightarrow> (failure + unit) \<times> Pod \<times> trace" where
  "prepJail w c t =
    (if length (Apps (Manifest c)) \<noteq> 1 then
       (Inl (Error (Errorf ''FIXME: Only one-app pods are supported!'')), c, t)
     else
       (case prepJail_apps w c (Apps (Manifest c)) [] t of
          (Inl f, t1) \<Rightarrow> (Inl f, c, t1)
        | (Inr fstab, t1) \<Rightarrow>
            (case (if length fstab > 0 then
                     (case ioutil_WriteFile w (Path c [''fstab'']) (concat fstab)
                             mode_0600 t1 of
                        (Some err, t2) \<Rightarrow> (Inl (Error (External err)), c, t2)
                      | (None, t2) \<Rightarrow>
                          (Inr (),
                           c\<lparr>Manifest := (Manifest c)
                               \<lparr>Annotations :=
                                  Annotations_Set (Annotations (Manifest c))
                                    ''jetpack/jail.conf/mount.fstab'' (Path c [''fstab''])\<rparr>\<rparr>,
                           t2))
                   else (Inr (), c, t1)) of
               (Inl f, c2, t2) \<Rightarrow> (Inl f, c2, t2)
             | (Inr u, c2, t2) \<Rightarrow>
                 (case jailConf w c2 of
                    Inl f \<Rightarrow> (Inl f, c2, t2)
                  | Inr conf \<Rightarrow>
                      (case ioutil_WriteFile w (Path c2 [''jail.conf'']) conf mode_0400 t2 of
                         (Some err, t3) \<Rightarrow> (Inl (Error (External err)), c2, t3)
                       | (None, t3) \<Rightarrow> (Inr (), c2, t3))))))"

subsection \<open>Status oracle\<close>

definition jailStatus ::
  "world \<Rightarrow> Pod \<Rightarrow> bool \<Rightarrow> trace \<Rightarrow> (failure + JailStatus) \<times> trace" where
  "jailStatus w c refresh t =
    (case jailName c of
       Inl f \<Rightarrow> (Inl f, t)
     | Inr name \<Rightarrow>
         (case jail_status w t name refresh of
            Inl err \<Rightarrow> (Inl (Error (External err)), t @ [GetJailStatus name refresh])
          | Inr status \<Rightarrow> (Inr status, t @ [GetJailStatus name refresh])))"

definition Status :: "world \<Rightarrow> Pod \<Rightarrow> trace \<Rightarrow> (failure + PodStatus) \<times> trace" where
  "Status w c t =
    (case jailStatus w c False t of
       (Inl (Error err), t') \<Rightarrow> (Inl (PanicError err), t')
     | (Inl f, t') \<Rightarrow> (Inl f, t')
     | (Inr status, t') \<Rightarrow>
         (if status = NoJailStatus then (Inr PodStatusStopped, t')
          else if Dying status then (Inr PodStatusDying, t')
          else (Inr PodStatusRunning, t')))"

definition Jid_of :: "world \<Rightarrow> Pod \<Rightarrow> trace \<Rightarrow> (failure + int) \<times> trace" where
  "Jid_of w c t =
    (case jailStatus w c False t of
       (Inl (Error err), t') \<Rightarrow> (Inl (PanicError err), t')
     | (Inl f, t') \<Rightarrow> (Inl f, t')
     | (Inr status, t') \<Rightarrow> (Inr (Jid status), t'))"

subsection \<open>Lifecycle controller\<close>

definition runJail ::
  "world \<Rightarrow> Pod \<Rightarrow> string \<Rightarrow> trace \<Rightarrow> (failure + unit) \<times> Pod \<times> trace" where
  "runJail w c op t =
    (case prepJail w c t of
       (Inl f, c1, t1) \<Rightarrow> (Inl f, c1, t1)
     | (Inr u, c1, t1) \<Rightarrow>
         (let verbosity = (if host_GetBool (Host c1) ''debug'' False then ''-v'' else ''-q'')
          in case jailName c1 of
               Inl f \<Rightarrow> (Inl f, c1, t1)
             | Inr name \<Rightarrow>
                 (case perform w
                         (RunCommand ''jail''
                            [''-f'', Path c1 [''jail.conf''], verbosity, op, name]) t1 of
                    (Some err, t2) \<Rightarrow> (Inl (Error (External err)), c1, t2)
                  | (None, t2) \<Rightarrow> (Inr (), c1, t2))))"

text \<open>
  The retry loop of \<^verbatim>\<open>Kill\<close> has no bound: a jail that stays dying keeps it running for
  ever, and then the result is \<open>None\<close>. The text printed while waiting holds a wall-clock
  duration and is not kept; \<open>Sleep\<close> counts milliseconds.
\<close>

partial_function (option) Kill ::
  "world \<Rightarrow> Pod \<Rightarrow> trace \<Rightarrow> ((failure + unit) \<times> Pod \<times> trace) option" where
  "Kill w c t =
    (case Status w c t of
       (Inl f, t1) \<Rightarrow> Some (Inl f, c, t1)
     | (Inr status, t1) \<Rightarrow>
         (case status of
            PodStatusStopped \<Rightarrow> Some (Inr (), c, t1)
          | PodStatusRunning \<Rightarrow>
              (case runJail w c ''-r'' t1 of
                 (Inl f, c2, t2) \<Rightarrow> Some (Inl f, c2, t2)
               | (Inr u, c2, t2) \<Rightarrow> Kill w c2 t2)
          | PodStatusDying \<Rightarrow> Kill w c (t1 @ [Printf_dying, Sleep 2500])
          | PodStatusInvalid \<Rightarrow>
              Some (Inl (Error (Errorf ''Pod is invalid, I am confused'')), c, t1)))"

text \<open>
  The dataset of the pod, by its path under the host's dataset: \<^verbatim>\<open>path.Join\<close> of
  \<^verbatim>\<open>pods\<close> and the UUID, which for a UUID in its rendered form is the two joined by
  a slash. The handle is the name the dataset manager returns.
\<close>

definition getDataset :: "world \<Rightarrow> Pod \<Rightarrow> trace \<Rightarrow> (failure + string option) \<times> trace" where
  "getDataset w c t =
    (case dataset_of w t (''pods/'' @ UUID c) of
       Inl ENOENT \<Rightarrow> (Inr None, t @ [GetDataset (''pods/'' @ UUID c)])
     | Inl err \<Rightarrow> (Inl (PanicError (External err)), t @ [GetDataset (''pods/'' @ UUID c)])
     | Inr ds \<Rightarrow> (Inr (Some ds), t @ [GetDataset (''pods/'' @ UUID c)]))"

text \<open>The part of \<^verbatim>\<open>Destroy\<close> after the jail is gone: the dataset, then the directory.\<close>

definition Destroy_storage ::
  "world \<Rightarrow> Pod \<Rightarrow> trace \<Rightarrow> (failure + unit) \<times> Pod \<times> trace" where
  "Destroy_storage w c t =
    (case getDataset w c t of
       (Inl f, t1) \<Rightarrow> (Inl f, c, t1)
     | (Inr dso, t1) \<Rightarrow>
         (case (case dso of
                  None \<Rightarrow> (None, t1)
                | Some ds \<Rightarrow> perform w (DatasetDestroy ds ''-r'') t1) of
            (Some err, t2) \<Rightarrow> (Inl (Error (External err)), c, t2)
          | (None, t2) \<Rightarrow>
              (case perform w (RemoveAll (Path c [])) t2 of
                 (Some err, t3) \<Rightarrow> (Inl (Error (External err)), c, t3)
               | (None, t3) \<Rightarrow> (Inr (), c, t3))))"

definition Destroy ::
  "world \<Rightarrow> Pod \<Rightarrow> trace \<Rightarrow> ((failure + unit) \<times> Pod \<times> trace) option" where
  "Destroy w c t =
    (case Jid_of w c t of
       (Inl f, t1) \<Rightarrow> Some (Inl f, c, t1)
     | (Inr jid, t1) \<Rightarrow>
         (case (if jid \<noteq> 0 then Kill w c t1 else Some (Inr (), c, t1)) of
            None \<Rightarrow> None
          | Some (Inl f, c2, t2) \<Rightarrow> Some (Inl f, c2, t2)
          | Some (Inr u, c2, t2) \<Rightarrow> Some (Destroy_storage w c2 t2)))"

declare Kill.simps [code]

subsection \<open>A concrete host, world and pod\<close>

text \<open>
  The world below keeps the files that were written: a file reads back as its last
  written contents and exists once written. Every call succeeds, the jail of the pod is
  running until a \<^verbatim>\<open>jail\<close> command has run, and the codec knows two manifests.
\<close>

definition example_host :: Host where
  "example_host =
    \<lparr>host_Path =
       (\<lambda>elem. ''/jp'' @ concat (map (\<lambda>e. if HasPrefix e ''/'' then e else ''/'' @ e) elem)),
     host_Properties = [''jail.interface'' \<mapsto> ''em0'', ''jail.namePrefix'' \<mapsto> ''jp-''],
     host_GetBool = (\<lambda>key def. def)\<rparr>"

fun written :: "trace \<Rightarrow> string \<Rightarrow> string option" where
  "written [] p = None"
| "written (e # t) p =
     (case written t p of
        Some bb \<Rightarrow> Some bb
      | None \<Rightarrow>
          (case e of WriteFile q bb mode \<Rightarrow> if q = p then Some bb else None | _ \<Rightarrow> None))"

fun is_RunCommand :: "event \<Rightarrow> bool" where
  "is_RunCommand (RunCommand prog args) = True"
| "is_RunCommand e = False"

definition example_app :: RuntimeApp where
  "example_app =
    \<lparr>rta_Name = ''web'', rta_ImageID = ''sha512-1'', rta_App = None,
     rta_Mounts = [\<lparr>mnt_Volume = ''vol0'', mnt_MountPoint = ''data''\<rparr>]\<rparr>"

definition example_manifest :: PodManifest where
  "example_manifest =
    \<lparr>Apps = [example_app],
     Volumes = [\<lparr>vol_Name = ''vol0'', vol_Kind = ''host'', vol_Source = ''/srv'',
                 vol_ReadOnly = None\<rparr>],
     Isolators = [],
     Annotations = [(''ip-address'', ''10.0.0.2'')]\<rparr>"

definition example_imgApp :: App where
  "example_imgApp =
    \<lparr>app_Exec = [''/bin/web''], app_User = ''www'', app_Group = ''www'',
     app_WorkingDirectory = [], app_Environment = [],
     app_MountPoints = [\<lparr>mp_Name = ''data'', mp_Path = ''/data'', mp_ReadOnly = False\<rparr>]\<rparr>"

definition example_image :: Image where
  "example_image =
    \<lparr>img_Manifest =
       \<lparr>im_Name = ''example.com/web'', im_Labels = [(''os'', ''linux'')],
        im_App = Some example_imgApp\<rparr>\<rparr>"

definition example_pod :: Pod where
  "example_pod =
    \<lparr>UUID = ''u1'', Host = example_host, Manifest = example_manifest, sealed = False\<rparr>"

definition example_world :: world where
  "example_world =
    \<lparr>call_err = (\<lambda>t e. None),
     read_data = (\<lambda>t p. case written t p of
                            Some bb \<Rightarrow> Inr bb
                          | None \<Rightarrow> if p = ''/etc/resolv.conf'' then Inr ''nameserver''
                                    else Inl ENOENT),
     stat_data = (\<lambda>t p. case written t p of
                            Some bb \<Rightarrow> Inr \<lparr>st_Mode = 0x8100, st_Uid = 0, st_Gid = 0\<rparr>
                          | None \<Rightarrow> Inl ENOENT),
     image_of = (\<lambda>t h. if h = ''sha512-1'' then Inr example_image else Inl ENOENT),
     jail_status = (\<lambda>t name refresh. if list_ex is_RunCommand t then Inr NoJailStatus
                                       else Inr \<lparr>Jid = 7, Dying = False\<rparr>),
     dataset_of = (\<lambda>t p. Inr (''zroot/'' @ p)),
     json_Marshal = (\<lambda>m. if m = example_manifest then Inr ''{example}''
                           else if m = zero_PodManifest then Inr ''{}''
                           else Inl (EOther ''unsupported'')),
     json_Unmarshal = (\<lambda>bb m. if bb = ''{example}'' then (None, example_manifest)
                               else if bb = ''{}'' then (None, zero_PodManifest)
                               else (Some (EOther ''syntax error''), m)),
     map_order = (\<lambda>ps. ps)\<rparr>"

text \<open>The configuration text of the concrete pod.\<close>

definition example_conf :: string where
  "example_conf =
     Quote ''jp-u1'' @ '' {'' @ [CHR 0x0A]
     @ ''  devfs_ruleset='' @ Quote ''4'' @ '';'' @ [CHR 0x0A]
     @ ''  exec.clean='' @ Quote ''true'' @ '';'' @ [CHR 0x0A]
     @ ''  host.hostname='' @ Quote ''u1'' @ '';'' @ [CHR 0x0A]
     @ ''  host.hostuuid='' @ Quote ''u1'' @ '';'' @ [CHR 0x0A]
     @ ''  interface='' @ Quote ''em0'' @ '';'' @ [CHR 0x0A]
     @ ''  ip4.addr='' @ Quote ''10.0.0.2'' @ '';'' @ [CHR 0x0A]
     @ ''  mount.devfs='' @ Quote ''true'' @ '';'' @ [CHR 0x0A]
     @ ''  path='' @ Quote ''/jp/pods/u1/rootfs'' @ '';'' @ [CHR 0x0A]
     @ ''  persist='' @ Quote ''true'' @ '';'' @ [CHR 0x0A]
     @ ''}'' @ [CHR 0x0A]"

text \<open>
  A pod whose manifest carries, besides its \<^verbatim>\<open>ip-address\<close>, an annotation under the
  reserved prefix for the key \<^verbatim>\<open>ip4.addr\<close>, and its configuration text.
\<close>

definition override_pod :: Pod where
  "override_pod =
     example_pod\<lparr>Manifest := example_manifest
       \<lparr>Annotations := [(''ip-address'', ''10.0.0.2''),
                         (''jetpack/jail.conf/ip4.addr'', ''10.9.9.9'')]\<rparr>\<rparr>"

definition override_conf :: string where
  "override_conf =
     Quote ''jp-u1'' @ '' {'' @ [CHR 0x0A]
     @ ''  devfs_ruleset='' @ Quote ''4'' @ '';'' @ [CHR 0x0A]
     @ ''  exec.clean='' @ Quote ''true'' @ '';'' @ [CHR 0x0A]
     @ ''  host.hostname='' @ Quote ''u1'' @ '';'' @ [CHR 0x0A]
     @ ''  host.hostuuid='' @ Quote ''u1'' @ '';'' @ [CHR 0x0A]
     @ ''  interface='' @ Quote ''em0'' @ '';'' @ [CHR 0x0A]
     @ ''  ip4.addr='' @ Quote ''10.9.9.9'' @ '';'' @ [CHR 0x0A]
     @ ''  mount.devfs='' @ Quote ''true'' @ '';'' @ [CHR 0x0A]
     @ ''  path='' @ Quote ''/jp/pods/u1/rootfs'' @ '';'' @ [CHR 0x0A]
     @ ''  persist='' @ Quote ''true'' @ '';'' @ [CHR 0x0A]
     @ ''}'' @ [CHR 0x0A]"

text \<open>
  The JSON codec of Go coerces a string to valid UTF-8 when it marshals it: every byte
  that is not valid UTF-8 is written as the escape of the replacement character U+FFFD,
  which unmarshals as the three bytes EF BF BD. The world \<open>go_codec_world\<close> has this
  codec at one manifest, whose annotation \<^verbatim>\<open>note\<close> has the single byte FF as its value.
  The text stands for the JSON of that manifest, cut down to the fields kept here.
\<close>

definition invalid_utf8_manifest :: PodManifest where
  "invalid_utf8_manifest =
     example_manifest\<lparr>Annotations :=
       [(''ip-address'', ''10.0.0.2''), (''note'', [CHR 0xFF])]\<rparr>"

definition replaced_manifest :: PodManifest where
  "replaced_manifest =
     example_manifest\<lparr>Annotations :=
       [(''ip-address'', ''10.0.0.2''), (''note'', [CHR 0xEF, CHR 0xBF, CHR 0xBD])]\<rparr>"

definition invalid_utf8_pod :: Pod where
  "invalid_utf8_pod = example_pod\<lparr>Manifest := invalid_utf8_manifest\<rparr>"

definition invalid_utf8_json :: string where
  "invalid_utf8_json =
     ''{apps:[web],volumes:[vol0],annotations:[{name:ip-address,value:10.0.0.2},''
     @ ''{name:note,value:'' @ [CHR 0x5C] @ ''ufffd}]}''"

definition go_codec_world :: world where
  "go_codec_world =
     example_world
       \<lparr>json_Marshal :=
          (\<lambda>m. if m = invalid_utf8_manifest then Inr invalid_utf8_json
                else json_Marshal example_world m),
        json_Unmarshal :=
          (\<lambda>bb m. if bb = invalid_utf8_json then (None, replaced_manifest)
                   else json_Unmarshal example_world bb m)\<rparr>"

text \<open>A world in which the status query reports job id 0 with the dying flag set.\<close>

definition dying_zero_world :: world where
  "dying_zero_world =
     example_world\<lparr>jail_status := (\<lambda>t name refresh. Inr \<lparr>Jid = 0, Dying = True\<rparr>)\<rparr>"

subsection \<open>The reserved annotations, as the spec words them\<close>

text \<open>
  Every annotation whose name starts with the reserved prefix names a configuration key:
  the rest of the name, hyphens mapped to underscores. \<open>jail_overrides\<close> lists these
  keys with their values, in the order of the annotations.
\<close>

definition jail_overrides :: "Annotations \<Rightarrow> (string \<times> string) list" where
  "jail_overrides anns =
     map (\<lambda>antn. (Replace_hyphens (drop (length ''jetpack/jail.conf/'') (fst antn)), snd antn))
       (filter (\<lambda>antn. HasPrefix (fst antn) ''jetpack/jail.conf/'') anns)"

subsection \<open>The mount table, as the spec words it\<close>

text \<open>
  The mount points that an image declares: those of its app template, none without one.
\<close>

definition declared_MountPoints :: "Image \<Rightarrow> MountPoint list" where
  "declared_MountPoints img =
     (case im_App (img_Manifest img) of None \<Rightarrow> [] | Some imgApp \<Rightarrow> app_MountPoints imgApp)"

text \<open>The two compatibility lines of an image whose \<^verbatim>\<open>os\<close> label is \<^verbatim>\<open>linux\<close>.\<close>

definition compat_lines :: "Pod \<Rightarrow> Image \<Rightarrow> string list" where
  "compat_lines c img =
     (if GetLabel (img_Manifest img) ''os'' = ''linux''
      then [''linsys '' @ Path c [''rootfs'', ''sys''] @ '' linsysfs  rw 0 0'' @ [CHR 0x0A],
            ''linproc '' @ Path c [''rootfs'', ''proc''] @ '' linprocfs rw 0 0'' @ [CHR 0x0A]]
      else [])"

text \<open>
  The line of one binding: source, target, \<^verbatim>\<open>nullfs\<close>, options. The source of a volume
  of kind \<^verbatim>\<open>empty\<close> is the directory allocated for its index among the volumes of the
  manifest, that of any other volume its declared source; the target is the path of the
  mount point under the root filesystem; the options are read-only when the volume is
  explicitly read-only or the mount point is.
\<close>

definition binding_line :: "Pod \<Rightarrow> Image \<Rightarrow> Mount \<Rightarrow> string" where
  "binding_line c img m =
     (case (find (\<lambda>v. vol_Name v = mnt_Volume m) (Volumes (Manifest c)),
            find (\<lambda>p. mp_Name p = mnt_MountPoint m) (declared_MountPoints img)) of
        (Some vol, Some mp) \<Rightarrow>
          (if vol_Kind vol = ''empty''
           then Path c [''volumes'',
                  Itoa (int (length (takeWhile (\<lambda>v. vol_Name v \<noteq> mnt_Volume m)
                                        (Volumes (Manifest c)))))]
           else vol_Source vol)
          @ '' '' @ Path c [''rootfs'', mp_Path mp] @ '' nullfs ''
          @ (if vol_ReadOnly vol = Some True \<or> mp_ReadOnly mp then ''ro'' else ''rw'')
          @ '' 0 0'' @ [CHR 0x0A]
      | _ \<Rightarrow> [])"

text \<open>The mount table: the compatibility lines, then the bindings in manifest order.\<close>

definition fstab_spec :: "Pod \<Rightarrow> Image \<Rightarrow> RuntimeApp \<Rightarrow> string list" where
  "fstab_spec c img app = compat_lines c img @ map (binding_line c img) (rta_Mounts app)"


text \<open>
  The calls of the mount resolver all succeed in a world where no call that returns only
  an error fails, where the host's \<^verbatim>\<open>/etc/resolv.conf\<close> can be read, and where a stat
  fails only because the path does not exist.
\<close>

definition calls_succeed :: "world \<Rightarrow> bool" where
  "calls_succeed w \<longleftrightarrow>
     (\<forall>t e. call_err w t e = None) \<and>
     (\<forall>t. \<exists>bb. read_data w t ''/etc/resolv.conf'' = Inr bb) \<and>
     (\<forall>t p msg. stat_data w t p \<noteq> Inl (EOther msg))"

text \<open>The calls that the processing of one binding can make.\<close>

fun mount_event :: "event \<Rightarrow> bool" where
  "mount_event (MkdirAll p mode) = True"
| "mount_event (Stat p) = True"
| "mount_event (Chmod p mode) = True"
| "mount_event (Chown p uid gid) = True"
| "mount_event e = False"

text \<open>
  More concrete pods: an image that declares the mount points \<^verbatim>\<open>data\<close> and
  \<^verbatim>\<open>config\<close>, a world that serves it, a pod that binds both (one to a volume of kind
  \<^verbatim>\<open>empty\<close>), its mount table, and a pod with a binding to a volume it does not have.
\<close>

definition data_config_imgApp :: App where
  "data_config_imgApp =
     example_imgApp\<lparr>app_MountPoints :=
       [\<lparr>mp_Name = ''data'', mp_Path = ''/data'', mp_ReadOnly = False\<rparr>,
        \<lparr>mp_Name = ''config'', mp_Path = ''/config'', mp_ReadOnly = False\<rparr>]\<rparr>"

definition data_config_image :: Image where
  "data_config_image =
    \<lparr>img_Manifest =
       \<lparr>im_Name = ''example.com/web'', im_Labels = [(''os'', ''linux'')],
        im_App = Some data_config_imgApp\<rparr>\<rparr>"

definition data_config_world :: world where
  "data_config_world = example_world\<lparr>image_of := (\<lambda>t h. Inr data_config_image)\<rparr>"

definition two_mount_app :: RuntimeApp where
  "two_mount_app =
     example_app\<lparr>rta_Mounts :=
       [\<lparr>mnt_Volume = ''scratch'', mnt_MountPoint = ''config''\<rparr>,
        \<lparr>mnt_Volume = ''vol0'', mnt_MountPoint = ''data''\<rparr>]\<rparr>"

definition two_mount_pod :: Pod where
  "two_mount_pod =
     example_pod\<lparr>Manifest := example_manifest
       \<lparr>Apps := [two_mount_app],
        Volumes := [\<lparr>vol_Name = ''vol0'', vol_Kind = ''host'', vol_Source = ''/srv'',
                      vol_ReadOnly = None\<rparr>,
                    \<lparr>vol_Name = ''scratch'', vol_Kind = ''empty'', vol_Source = [],
                      vol_ReadOnly = Some True\<rparr>]\<rparr>\<rparr>"

definition two_mount_fstab :: "string list" where
  "two_mount_fstab =
     [''linsys /jp/pods/u1/rootfs/sys linsysfs  rw 0 0'' @ [CHR 0x0A],
      ''linproc /jp/pods/u1/rootfs/proc linprocfs rw 0 0'' @ [CHR 0x0A],
      ''/jp/pods/u1/volumes/1 /jp/pods/u1/rootfs/config nullfs ro 0 0'' @ [CHR 0x0A],
      ''/srv /jp/pods/u1/rootfs/data nullfs rw 0 0'' @ [CHR 0x0A]]"

definition unknown_volume_app :: RuntimeApp where
  "unknown_volume_app =
     example_app\<lparr>rta_Mounts := [\<lparr>mnt_Volume = ''nosuch'', mnt_MountPoint = ''data''\<rparr>]\<rparr>"

definition unknown_volume_pod :: Pod where
  "unknown_volume_pod = example_pod\<lparr>Manifest := example_manifest\<lparr>Apps := [unknown_volume_app]\<rparr>\<rparr>"

subsection \<open>The phases of a teardown\<close>

text \<open>
  The calls that touch the backing storage of a pod: looking its dataset up, destroying
  the dataset, removing the directory tree.
\<close>

fun storage_event :: "event \<Rightarrow> bool" where
  "storage_event (GetDataset p) = True"
| "storage_event (DatasetDestroy ds flag) = True"
| "storage_event (RemoveAll p) = True"
| "storage_event e = False"

text \<open>A trace \<open>t'\<close> extends \<open>t\<close> quietly when the calls added touch no storage.\<close>

definition quiet :: "trace \<Rightarrow> trace \<Rightarrow> bool" where
  "quiet t t' \<longleftrightarrow> (\<exists>new. t' = t @ new \<and> list_all (\<lambda>e. \<not> storage_event e) new)"

text \<open>
  The phase of a call within a teardown: 0 for the calls that stop the jail, 1 for the
  calls on the dataset, 2 for the removal of the directory tree.
\<close>

fun phase :: "event \<Rightarrow> nat" where
  "phase (GetDataset p) = 1"
| "phase (DatasetDestroy ds flag) = 1"
| "phase (RemoveAll p) = 2"
| "phase e = 0"

text \<open>
  Two more worlds: one in which every external command fails, so that the jail cannot be
  removed, and one in which the dataset cannot be destroyed.
\<close>

definition jail_fails_world :: world where
  "jail_fails_world =
     example_world\<lparr>call_err :=
       (\<lambda>t e. if is_RunCommand e then Some (EOther ''jail: exit status 1'') else None)\<rparr>"

definition dataset_busy_world :: world where
  "dataset_busy_world =
     example_world\<lparr>call_err :=
       (\<lambda>t e. case e of DatasetDestroy ds flag \<Rightarrow> Some (EOther ''dataset is busy'')
                | _ \<Rightarrow> None)\<rparr>"

section \<open>Properties\<close>

subsection \<open>Facts about the concrete pod\<close>

lemma example_Path:
  "Path example_pod elem =
     ''/jp/pods/u1'' @ concat (map (\<lambda>e. if HasPrefix e ''/'' then e else ''/'' @ e) elem)"
  by (simp add: Path_def example_pod_def example_host_def HasPrefix_def)

lemma example_Path_manifest: "Path example_pod [''manifest''] = ''/jp/pods/u1/manifest''"
  by (simp add: example_Path HasPrefix_def)

lemma example_pod_sel:
  "UUID example_pod = ''u1''" "Host example_pod = example_host"
  "Manifest example_pod = example_manifest" "sealed example_pod = False"
  by (simp_all add: example_pod_def)


subsection \<open>Load and the sealed flag\<close>

lemma length_one: "xs \<noteq> [] \<Longrightarrow> \<not> Suc 0 < length xs \<Longrightarrow> length xs = Suc 0"
  by (cases xs) auto

text \<open>
  C10. Whenever \<open>Load\<close> returns an error (the manifest file is missing, it cannot be
  read or parsed, or one of the three validation checks fails) the sealed flag of the pod
  is false afterwards; and when \<open>Load\<close> succeeds the flag is set and every check has
  passed: the pod was not sealed before, and the manifest read has exactly one app and
  no isolators.
\<close>

theorem Load_error_leaves_unsealed:
  "(Load w c t = (Inl (Error e), c', t') \<longrightarrow> \<not> sealed c') \<and>
   (Load w c t = (Inr (), c', t') \<longrightarrow>
      sealed c' \<and> \<not> sealed c \<and> length (Apps (Manifest c')) = 1 \<and> Isolators (Manifest c') = [])"
  by (auto simp: Load_def Exists_def readManifest_def os_Stat_def ioutil_ReadFile_def
      length_one
      split: if_splits prod.splits sum.splits bool.splits oserror.splits option.splits)

theorem Load_error_leaves_unsealed_witness:
  "(Load example_world example_pod [] =
      (Inl (Error ErrNotFound), example_pod, [Stat ''/jp/pods/u1/manifest''])
    \<and> \<not> sealed example_pod) \<and>
   (Load example_world example_pod [WriteFile ''/jp/pods/u1/manifest'' ''{example}'' mode_0400] =
      (Inr (), example_pod\<lparr>sealed := True\<rparr>,
       [WriteFile ''/jp/pods/u1/manifest'' ''{example}'' mode_0400,
        Stat ''/jp/pods/u1/manifest'', ReadFile ''/jp/pods/u1/manifest''])
    \<and> sealed (example_pod\<lparr>sealed := True\<rparr>) \<and> \<not> sealed example_pod
    \<and> length (Apps (Manifest (example_pod\<lparr>sealed := True\<rparr>))) = 1
    \<and> Isolators (Manifest (example_pod\<lparr>sealed := True\<rparr>)) = [])"
proof -
  note p = example_Path_manifest
  have 1: "Load example_world example_pod [] =
             (Inl (Error ErrNotFound), example_pod, [Stat ''/jp/pods/u1/manifest''])"
    by (simp add: Load_def Exists_def os_Stat_def p example_pod_sel example_world_def)
  have 2: "Load example_world example_pod
               [WriteFile ''/jp/pods/u1/manifest'' ''{example}'' mode_0400] =
             (Inr (), example_pod\<lparr>sealed := True\<rparr>,
              [WriteFile ''/jp/pods/u1/manifest'' ''{example}'' mode_0400,
               Stat ''/jp/pods/u1/manifest'', ReadFile ''/jp/pods/u1/manifest''])"
    by (simp add: Load_def Exists_def os_Stat_def readManifest_def ioutil_ReadFile_def p
        example_pod_sel example_world_def)
       (simp add: example_pod_def example_manifest_def)
  from Load_error_leaves_unsealed [of example_world example_pod "[]" ErrNotFound example_pod
      "[Stat ''/jp/pods/u1/manifest'']" ] 1
  have a: "\<not> sealed example_pod" by simp
  from Load_error_leaves_unsealed [of example_world example_pod
      "[WriteFile ''/jp/pods/u1/manifest'' ''{example}'' mode_0400]" _
      "example_pod\<lparr>sealed := True\<rparr>"
      "[WriteFile ''/jp/pods/u1/manifest'' ''{example}'' mode_0400,
        Stat ''/jp/pods/u1/manifest'', ReadFile ''/jp/pods/u1/manifest'']"] 2
  have b: "sealed (example_pod\<lparr>sealed := True\<rparr>) \<and> \<not> sealed example_pod
    \<and> length (Apps (Manifest (example_pod\<lparr>sealed := True\<rparr>))) = 1
    \<and> Isolators (Manifest (example_pod\<lparr>sealed := True\<rparr>)) = []" by simp
  from 1 2 a b show ?thesis by simp
qed

subsection \<open>Save and Load\<close>

text \<open>
  C8 as stated fails: the manifest of \<open>invalid_utf8_pod\<close> has exactly one app and no
  isolators, \<open>Save\<close> writes it, and a fresh pod loaded from the file that was written
  carries \<open>replaced_manifest\<close>, in which the value of the annotation \<^verbatim>\<open>note\<close> is the
  replacement character and no longer the byte that was saved.
\<close>

theorem Save_then_Load_roundtrip_counterexample:
  "length (Apps (Manifest invalid_utf8_pod)) = 1 \<and>
   Isolators (Manifest invalid_utf8_pod) = [] \<and>
   fst (Save go_codec_world invalid_utf8_pod []) = Inr () \<and>
   snd (snd (Save go_codec_world invalid_utf8_pod [])) =
     [WriteFile ''/jp/pods/u1/manifest'' invalid_utf8_json mode_0400] \<and>
   map_sum id Manifest
     (fst (LoadPod go_codec_world example_host (Some ''u1'')
             [WriteFile ''/jp/pods/u1/manifest'' invalid_utf8_json mode_0400])) =
     Inr replaced_manifest \<and>
   replaced_manifest \<noteq> Manifest invalid_utf8_pod"
  by code_simp

text \<open>
  C8, amended. When \<open>Save\<close> has written the manifest of a pod (the codec marshals it
  and the write succeeds), when the file then exists and reads back as written, and when
  the codec unmarshals the text into a manifest with exactly one app and no isolators, a
  fresh pod loaded by \<open>LoadPod\<close> for the same host and UUID is sealed and carries the
  manifest that the codec unmarshalled. It is equal to the original if and only if the
  codec gives the original back.
\<close>

theorem Save_then_Load_roundtrip:
  assumes marshal: "json_Marshal w (Manifest c) = Inr bb"
    and wr: "call_err w t (WriteFile (Path c [''manifest'']) bb mode_0400) = None"
    and stok: "stat_data w (t @ [WriteFile (Path c [''manifest'']) bb mode_0400])
                 (Path c [''manifest'']) = Inr st"
    and rd: "read_data w (t @ [WriteFile (Path c [''manifest'']) bb mode_0400,
                 Stat (Path c [''manifest''])]) (Path c [''manifest'']) = Inr bb"
    and unmarshal: "json_Unmarshal w bb zero_PodManifest = (None, m)"
    and accepted: "length (Apps m) = 1" "Isolators m = []"
  shows "Save w c t =
           (Inr (), c\<lparr>sealed := True\<rparr>, t @ [WriteFile (Path c [''manifest'']) bb mode_0400]) \<and>
         LoadPod w (Host c) (Some (UUID c))
             (t @ [WriteFile (Path c [''manifest'']) bb mode_0400]) =
           (Inr \<lparr>UUID = UUID c, Host = Host c, Manifest = m, sealed = True\<rparr>,
            t @ [WriteFile (Path c [''manifest'']) bb mode_0400,
                 Stat (Path c [''manifest'']), ReadFile (Path c [''manifest''])]) \<and>
         (map_sum id Manifest
            (fst (LoadPod w (Host c) (Some (UUID c))
                    (t @ [WriteFile (Path c [''manifest'']) bb mode_0400])))
            = Inr (Manifest c)
          \<longleftrightarrow> m = Manifest c)"
proof -
  have S: "Save w c t =
           (Inr (), c\<lparr>sealed := True\<rparr>, t @ [WriteFile (Path c [''manifest'']) bb mode_0400])"
    using marshal wr by (simp add: Save_def ioutil_WriteFile_def perform_def)
  have L: "LoadPod w (Host c) (Some (UUID c))
             (t @ [WriteFile (Path c [''manifest'']) bb mode_0400]) =
           (Inr \<lparr>UUID = UUID c, Host = Host c, Manifest = m, sealed = True\<rparr>,
            t @ [WriteFile (Path c [''manifest'']) bb mode_0400,
                 Stat (Path c [''manifest'']), ReadFile (Path c [''manifest''])])"
    using stok rd unmarshal accepted
    by (auto simp add: LoadPod_def Load_def Exists_def readManifest_def os_Stat_def
        ioutil_ReadFile_def Path_def)
  from S L show ?thesis by simp
qed

theorem Save_then_Load_roundtrip_witness:
  "Save example_world example_pod [] =
     (Inr (), example_pod\<lparr>sealed := True\<rparr>,
      [WriteFile ''/jp/pods/u1/manifest'' ''{example}'' mode_0400]) \<and>
   LoadPod example_world example_host (Some ''u1'')
       [WriteFile ''/jp/pods/u1/manifest'' ''{example}'' mode_0400] =
     (Inr \<lparr>UUID = ''u1'', Host = example_host, Manifest = example_manifest, sealed = True\<rparr>,
      [WriteFile ''/jp/pods/u1/manifest'' ''{example}'' mode_0400,
       Stat ''/jp/pods/u1/manifest'', ReadFile ''/jp/pods/u1/manifest''])"
proof -
  note p = example_Path_manifest
  have 1: "json_Marshal example_world (Manifest example_pod) = Inr ''{example}''"
    by (simp add: example_world_def example_pod_sel)
  have 2: "call_err example_world []
             (WriteFile (Path example_pod [''manifest'']) ''{example}'' mode_0400) = None"
    by (simp add: example_world_def)
  have 3: "stat_data example_world
             ([] @ [WriteFile (Path example_pod [''manifest'']) ''{example}'' mode_0400])
             (Path example_pod [''manifest''])
           = Inr \<lparr>st_Mode = 0x8100, st_Uid = 0, st_Gid = 0\<rparr>"
    by (simp add: example_world_def p)
  have 4: "read_data example_world
             ([] @ [WriteFile (Path example_pod [''manifest'']) ''{example}'' mode_0400,
                    Stat (Path example_pod [''manifest''])])
             (Path example_pod [''manifest'']) = Inr ''{example}''"
    by (simp add: example_world_def p)
  have 5: "json_Unmarshal example_world ''{example}'' zero_PodManifest
             = (None, Manifest example_pod)"
    by (simp add: example_world_def example_pod_sel)
  have 6: "length (Apps (Manifest example_pod)) = 1" "Isolators (Manifest example_pod) = []"
    by (simp_all add: example_pod_sel example_manifest_def)
  from Save_then_Load_roundtrip [OF 1 2 3 4 5 6] show ?thesis
    by (simp add: p example_pod_sel)
qed

text \<open>
  A pod that \<open>Save\<close> has sealed cannot itself be loaded again: that is a panic. The
  round trip above therefore reads the manifest back into a fresh pod.
\<close>

lemma Load_sealed_panics:
  "sealed c \<Longrightarrow> Load w c t = (Inl (Panic ''tried to load an already sealed pod''), c, t)"
  by (simp add: Load_def)

text \<open>
  C9. \<open>Save\<close> validates nothing: whenever the codec marshals the manifest and the write
  succeeds, \<open>Save\<close> writes the manifest and seals the pod, also when the manifest has
  no app, several apps or isolators. Read back under the conditions of the round trip,
  exactly such a manifest makes \<open>LoadPod\<close> fail with the validation error of the first
  check that it violates.
\<close>

theorem Save_accepts_what_Load_rejects:
  assumes marshal: "json_Marshal w (Manifest c) = Inr bb"
    and wr: "call_err w t (WriteFile (Path c [''manifest'']) bb mode_0400) = None"
    and stok: "stat_data w (t @ [WriteFile (Path c [''manifest'']) bb mode_0400])
                 (Path c [''manifest'']) = Inr st"
    and rd: "read_data w (t @ [WriteFile (Path c [''manifest'']) bb mode_0400,
                 Stat (Path c [''manifest''])]) (Path c [''manifest'']) = Inr bb"
    and unmarshal: "json_Unmarshal w bb zero_PodManifest = (None, Manifest c)"
    and rejected: "Apps (Manifest c) = [] \<or> length (Apps (Manifest c)) > 1
                   \<or> Isolators (Manifest c) \<noteq> []"
  shows "Save w c t =
           (Inr (), c\<lparr>sealed := True\<rparr>, t @ [WriteFile (Path c [''manifest'']) bb mode_0400]) \<and>
         LoadPod w (Host c) (Some (UUID c))
             (t @ [WriteFile (Path c [''manifest'']) bb mode_0400]) =
           (Inl (Error (Errorf
              (if Apps (Manifest c) = [] then ''No application set?''
               else if length (Apps (Manifest c)) > 1
                 then ''TODO: Multi-application pods are not supported''
               else ''TODO: isolators are not supported''))),
            t @ [WriteFile (Path c [''manifest'']) bb mode_0400,
                 Stat (Path c [''manifest'']), ReadFile (Path c [''manifest''])])"
  using assms
  by (auto simp add: Save_def LoadPod_def Load_def Exists_def readManifest_def os_Stat_def
      ioutil_ReadFile_def ioutil_WriteFile_def perform_def Path_def)

theorem Save_accepts_what_Load_rejects_witness:
  "Save example_world (example_pod\<lparr>Manifest := zero_PodManifest\<rparr>) [] =
     (Inr (), example_pod\<lparr>Manifest := zero_PodManifest, sealed := True\<rparr>,
      [WriteFile ''/jp/pods/u1/manifest'' ''{}'' mode_0400]) \<and>
   LoadPod example_world example_host (Some ''u1'')
       [WriteFile ''/jp/pods/u1/manifest'' ''{}'' mode_0400] =
     (Inl (Error (Errorf ''No application set?'')),
      [WriteFile ''/jp/pods/u1/manifest'' ''{}'' mode_0400,
       Stat ''/jp/pods/u1/manifest'', ReadFile ''/jp/pods/u1/manifest''])"
proof -
  let ?c = "example_pod\<lparr>Manifest := zero_PodManifest\<rparr>"
  have p: "Path ?c [''manifest''] = ''/jp/pods/u1/manifest''"
    using example_Path_manifest by (simp add: Path_def)
  have ne: "zero_PodManifest \<noteq> example_manifest"
    by (simp add: zero_PodManifest_def example_manifest_def)
  have 1: "json_Marshal example_world (Manifest ?c) = Inr ''{}''"
    by (simp add: example_world_def ne)
  have 2: "call_err example_world [] (WriteFile (Path ?c [''manifest'']) ''{}'' mode_0400) = None"
    by (simp add: example_world_def)
  have 3: "stat_data example_world
             ([] @ [WriteFile (Path ?c [''manifest'']) ''{}'' mode_0400])
             (Path ?c [''manifest''])
           = Inr \<lparr>st_Mode = 0x8100, st_Uid = 0, st_Gid = 0\<rparr>"
    by (simp add: example_world_def p)
  have 4: "read_data example_world
             ([] @ [WriteFile (Path ?c [''manifest'']) ''{}'' mode_0400,
                    Stat (Path ?c [''manifest''])])
             (Path ?c [''manifest'']) = Inr ''{}''"
    by (simp add: example_world_def p)
  have 5: "json_Unmarshal example_world ''{}'' zero_PodManifest = (None, Manifest ?c)"
    by (simp add: example_world_def)
  have 6: "Apps (Manifest ?c) = [] \<or> length (Apps (Manifest ?c)) > 1
           \<or> Isolators (Manifest ?c) \<noteq> []"
    by (simp add: zero_PodManifest_def)
  have a: "Apps zero_PodManifest = []"
    by (simp add: zero_PodManifest_def)
  from Save_accepts_what_Load_rejects [OF 1 2 3 4 5 6] show ?thesis
    by (simp add: p example_pod_sel a)
qed

subsection \<open>The jail configuration builder\<close>

lemma map_of_map_assign: "map_of (map_assign ps k v) = (map_of ps)(k \<mapsto> v)"
  by (induction ps) (auto simp: fun_eq_iff)

lemma keys_map_assign: "fst ` set (map_assign ps k v) = insert k (fst ` set ps)"
  by (induction ps) auto

lemma distinct_map_assign:
  "distinct (map fst ps) \<Longrightarrow> distinct (map fst (map_assign ps k v))"
  by (induction ps) (auto simp: keys_map_assign)

lemma distinct_jailConf_annotations:
  "distinct (map fst ps) \<Longrightarrow> distinct (map fst (jailConf_annotations anns ps))"
  by (induction anns arbitrary: ps) (auto simp: distinct_map_assign)

lemma map_of_jailConf_annotations:
  "map_of (jailConf_annotations anns ps) k =
     (case map_of (rev (jail_overrides anns)) k of Some v \<Rightarrow> Some v | None \<Rightarrow> map_of ps k)"
proof (induction anns arbitrary: ps)
  case Nil
  then show ?case by (simp add: jail_overrides_def)
next
  case (Cons antn anns)
  show ?case
    by (simp add: Cons.IH jail_overrides_def map_of_map_assign map_add_def
        split: option.splits)
qed

lemma distinct_jailConf_parameters:
  "jailConf_parameters c = Inr ps \<Longrightarrow> distinct (map fst ps)"
  by (auto simp: jailConf_parameters_def Let_def distinct_jailConf_annotations
      distinct_map_assign split: sum.splits option.splits)

lemma jailConf_lines_order:
  assumes "mset (map_order w1 ps) = mset ps" "mset (map_order w2 ps) = mset ps"
  shows "jailConf_lines w1 ps = jailConf_lines w2 ps"
proof -
  have "mset (map jailConf_line (map_order w1 ps)) = mset (map jailConf_line (map_order w2 ps))"
    using assms by (metis mset_map)
  then show ?thesis
    unfolding jailConf_lines_def by (metis properties_for_sort sorted_sort mset_sort)
qed

lemma jailConf_parameters_cong:
  assumes "UUID c1 = UUID c2" "Manifest c1 = Manifest c2"
    "host_Path (Host c1) = host_Path (Host c2)"
    "host_Properties (Host c1) = host_Properties (Host c2)"
  shows "jailConf_parameters c1 = jailConf_parameters c2"
  using assms by (simp add: jailConf_parameters_def MustGetString_def Path_def Let_def
      cong: sum.case_cong option.case_cong)

text \<open>
  C7. The jail configuration builder is deterministic. Whatever order the runtime
  enumerates the parameter map in (any two enumerations that are permutations of the
  entries), two pods with the same UUID, manifest, host paths and host properties get the
  same result, text for text. When the result is a text, it is the quoted jail name, an
  opening brace, the rendered lines in sorted order, one for each entry of the parameter
  table (whose keys are distinct), and the closing brace.
\<close>

theorem jailConf_deterministic:
  assumes "\<And>ps. mset (map_order w1 ps) = mset ps"
    and "\<And>ps. mset (map_order w2 ps) = mset ps"
    and "UUID c1 = UUID c2" "Manifest c1 = Manifest c2"
    and "host_Path (Host c1) = host_Path (Host c2)"
    and "host_Properties (Host c1) = host_Properties (Host c2)"
  shows "jailConf w1 c1 = jailConf w2 c2 \<and>
         (\<forall>text. jailConf w1 c1 = Inr text \<longrightarrow>
            (\<exists>ps name. jailConf_parameters c1 = Inr ps \<and> jailName c1 = Inr name \<and>
               text = Quote name @ '' {'' @ [CHR 0x0A]
                      @ Join (jailConf_lines w1 ps) [CHR 0x0A] @ [CHR 0x0A] @ ''}'' @ [CHR 0x0A] \<and>
               sorted (jailConf_lines w1 ps) \<and>
               mset (jailConf_lines w1 ps) = image_mset jailConf_line (mset ps) \<and>
               distinct (map fst ps)))"
proof -
  have p: "jailConf_parameters c1 = jailConf_parameters c2"
    using assms(3-6) by (rule jailConf_parameters_cong)
  have n: "jailName c1 = jailName c2"
    using assms(3,6) by (simp add: jailName_def MustGetString_def cong: sum.case_cong)
  have l: "\<And>ps. jailConf_lines w1 ps = jailConf_lines w2 ps"
    using assms(1,2) by (simp add: jailConf_lines_order)
  have A: "jailConf w1 c1 = jailConf w2 c2"
    by (simp add: jailConf_def p n l cong: sum.case_cong)
  have m: "\<And>ps. mset (jailConf_lines w1 ps) = image_mset jailConf_line (mset ps)"
    using assms(1) by (simp add: jailConf_lines_def)
  have s: "\<And>ps. sorted (jailConf_lines w1 ps)"
    by (simp add: jailConf_lines_def)
  have B: "\<forall>text. jailConf w1 c1 = Inr text \<longrightarrow>
            (\<exists>ps name. jailConf_parameters c1 = Inr ps \<and> jailName c1 = Inr name \<and>
               text = Quote name @ '' {'' @ [CHR 0x0A]
                      @ Join (jailConf_lines w1 ps) [CHR 0x0A] @ [CHR 0x0A] @ ''}'' @ [CHR 0x0A] \<and>
               sorted (jailConf_lines w1 ps) \<and>
               mset (jailConf_lines w1 ps) = image_mset jailConf_line (mset ps) \<and>
               distinct (map fst ps))"
    using m s by (auto simp: jailConf_def distinct_jailConf_parameters split: sum.splits)
  from A B show ?thesis by simp
qed

lemma example_jailConf: "jailConf example_world example_pod = Inr example_conf"
  by code_simp

theorem jailConf_deterministic_witness:
  "jailConf example_world example_pod
     = jailConf (example_world\<lparr>map_order := rev\<rparr>) (example_pod\<lparr>sealed := True\<rparr>) \<and>
   jailConf (example_world\<lparr>map_order := rev\<rparr>) (example_pod\<lparr>sealed := True\<rparr>)
     = Inr example_conf"
proof -
  have 1: "\<And>ps. mset (map_order example_world ps) = mset ps"
    by (simp add: example_world_def)
  have 2: "\<And>ps. mset (map_order (example_world\<lparr>map_order := rev\<rparr>) ps) = mset ps"
    by simp
  from jailConf_deterministic [of example_world "example_world\<lparr>map_order := rev\<rparr>"
      example_pod "example_pod\<lparr>sealed := True\<rparr>", OF 1 2]
  have "jailConf example_world example_pod
     = jailConf (example_world\<lparr>map_order := rev\<rparr>) (example_pod\<lparr>sealed := True\<rparr>)"
    by simp
  with example_jailConf show ?thesis by simp
qed

lemma no_ip_panics:
  "Annotations_Get (Annotations (Manifest c)) ''ip-address'' = None \<Longrightarrow>
   \<exists>msg. jailConf w c = Inl (Panic msg)"
  by (auto simp: jailConf_def jailConf_parameters_def MustGetString_def Let_def
      split: option.splits sum.splits)

lemma map_of_distinct_iff:
  "distinct (map fst ps) \<Longrightarrow> (k, v) \<in> set ps \<longleftrightarrow> map_of ps k = Some v"
  by (metis map_of_SomeD map_of_is_SomeI)

lemma ip4_addr_value:
  assumes "Annotations_Get (Annotations (Manifest c)) ''ip-address'' = Some ip"
    and "jailConf_parameters c = Inr ps"
  shows "map_of ps ''ip4.addr'' =
     Some (case map_of (rev (jail_overrides (Annotations (Manifest c)))) ''ip4.addr'' of
        None \<Rightarrow> ip | Some v \<Rightarrow> v)"
  using assms
  by (auto simp: jailConf_parameters_def Let_def map_of_jailConf_annotations
      map_of_map_assign split: sum.splits option.splits)

text \<open>
  C5 as stated fails: the pod \<open>override_pod\<close> has the annotation \<^verbatim>\<open>ip-address\<close> with
  value 10.0.0.2, and its configuration renders \<^verbatim>\<open>ip4.addr\<close> as 10.9.9.9, the value
  of its annotation \<^verbatim>\<open>jetpack/jail.conf/ip4.addr\<close>.
\<close>

theorem jailConf_ip4_addr_counterexample:
  "Annotations_Get (Annotations (Manifest override_pod)) ''ip-address'' = Some ''10.0.0.2'' \<and>
   jailConf example_world override_pod = Inr override_conf"
  by code_simp

text \<open>
  C5, amended. Without an \<^verbatim>\<open>ip-address\<close> annotation building the configuration
  panics. With the annotation, and the parameter table built, the table has exactly one
  entry for \<^verbatim>\<open>ip4.addr\<close> and its line is among the rendered lines; its value is the
  value of the last annotation under the reserved prefix whose key is \<^verbatim>\<open>ip4.addr\<close>,
  and when there is no such annotation it is the value of \<^verbatim>\<open>ip-address\<close>.
\<close>

theorem jailConf_ip4_addr:
  assumes "mset (map_order w ps) = mset ps"
  shows
  "(Annotations_Get (Annotations (Manifest c)) ''ip-address'' = None \<longrightarrow>
      (\<exists>msg. jailConf w c = Inl (Panic msg))) \<and>
   (Annotations_Get (Annotations (Manifest c)) ''ip-address'' = Some ip \<and>
    jailConf_parameters c = Inr ps \<longrightarrow>
      (let v = (case map_of (rev (jail_overrides (Annotations (Manifest c)))) ''ip4.addr'' of
                  None \<Rightarrow> ip | Some v' \<Rightarrow> v')
       in (\<forall>v'. (''ip4.addr'', v') \<in> set ps \<longleftrightarrow> v' = v) \<and>
          jailConf_line (''ip4.addr'', v) \<in> set (jailConf_lines w ps) \<and>
          (''ip4.addr'' \<notin> fst ` set (jail_overrides (Annotations (Manifest c))) \<longrightarrow> v = ip)))"
proof -
  have A: "Annotations_Get (Annotations (Manifest c)) ''ip-address'' = None \<longrightarrow>
      (\<exists>msg. jailConf w c = Inl (Panic msg))"
    by (simp add: no_ip_panics)
  have B: "(let v = (case map_of (rev (jail_overrides (Annotations (Manifest c)))) ''ip4.addr'' of
                  None \<Rightarrow> ip | Some v' \<Rightarrow> v')
       in (\<forall>v'. (''ip4.addr'', v') \<in> set ps \<longleftrightarrow> v' = v) \<and>
          jailConf_line (''ip4.addr'', v) \<in> set (jailConf_lines w ps) \<and>
          (''ip4.addr'' \<notin> fst ` set (jail_overrides (Annotations (Manifest c))) \<longrightarrow> v = ip))"
    if ip: "Annotations_Get (Annotations (Manifest c)) ''ip-address'' = Some ip"
      and ps: "jailConf_parameters c = Inr ps"
  proof -
    define v where "v = (case map_of (rev (jail_overrides (Annotations (Manifest c)))) ''ip4.addr''
                           of None \<Rightarrow> ip | Some v' \<Rightarrow> v')"
    have m: "map_of ps ''ip4.addr'' = Some v"
      unfolding v_def using ip ps by (rule ip4_addr_value)
    have d: "distinct (map fst ps)"
      using ps by (rule distinct_jailConf_parameters)
    have 1: "\<forall>v'. (''ip4.addr'', v') \<in> set ps \<longleftrightarrow> v' = v"
      by (auto simp: map_of_distinct_iff [OF d] m)
    have "set (map_order w ps) = set ps"
      using assms by (rule mset_eq_setD)
    moreover have "(''ip4.addr'', v) \<in> set ps"
      using 1 by simp
    ultimately have 2: "jailConf_line (''ip4.addr'', v) \<in> set (jailConf_lines w ps)"
      by (simp add: jailConf_lines_def)
    have 3: "''ip4.addr'' \<notin> fst ` set (jail_overrides (Annotations (Manifest c))) \<longrightarrow> v = ip"
    proof
      assume "''ip4.addr'' \<notin> fst ` set (jail_overrides (Annotations (Manifest c)))"
      then have "map_of (rev (jail_overrides (Annotations (Manifest c)))) ''ip4.addr'' = None"
        by (simp add: map_of_eq_None_iff)
      then show "v = ip" by (simp add: v_def)
    qed
    from 1 2 3 show ?thesis unfolding Let_def v_def by blast
  qed
  from A B show ?thesis by blast
qed

theorem jailConf_ip4_addr_witness:
  "(Annotations_Get (Annotations (Manifest (example_pod\<lparr>Manifest := zero_PodManifest\<rparr>)))
       ''ip-address'' = None \<and>
    (\<exists>msg. jailConf example_world (example_pod\<lparr>Manifest := zero_PodManifest\<rparr>)
              = Inl (Panic msg))) \<and>
   (Annotations_Get (Annotations (Manifest example_pod)) ''ip-address'' = Some ''10.0.0.2'' \<and>
    jailConf_line (''ip4.addr'', ''10.0.0.2'')
      \<in> set (jailConf_lines example_world
                [(''devfs_ruleset'', ''4''), (''exec.clean'', ''true''),
                 (''host.hostuuid'', ''u1''), (''interface'', ''em0''),
                 (''mount.devfs'', ''true''), (''path'', ''/jp/pods/u1/rootfs''),
                 (''persist'', ''true''), (''host.hostname'', ''u1''),
                 (''ip4.addr'', ''10.0.0.2'')]))"
proof -
  let ?ps = "[(''devfs_ruleset'', ''4''), (''exec.clean'', ''true''),
                 (''host.hostuuid'', ''u1''), (''interface'', ''em0''),
                 (''mount.devfs'', ''true''), (''path'', ''/jp/pods/u1/rootfs''),
                 (''persist'', ''true''), (''host.hostname'', ''u1''),
                 (''ip4.addr'', ''10.0.0.2'')]"
  have o: "\<And>ps. mset (map_order example_world ps) = mset ps"
    by (simp add: example_world_def)
  have 1: "Annotations_Get (Annotations (Manifest (example_pod\<lparr>Manifest := zero_PodManifest\<rparr>)))
       ''ip-address'' = None"
    by (simp add: zero_PodManifest_def)
  have 2: "Annotations_Get (Annotations (Manifest example_pod)) ''ip-address'' = Some ''10.0.0.2''"
    by (simp add: example_pod_sel example_manifest_def)
  have 3: "jailConf_parameters example_pod = Inr ?ps"
    by code_simp
  have 4: "jail_overrides (Annotations (Manifest example_pod)) = []"
    by (simp add: example_pod_sel example_manifest_def jail_overrides_def HasPrefix_def)
  from jailConf_ip4_addr [where c = "example_pod\<lparr>Manifest := zero_PodManifest\<rparr>"
      and w = example_world, OF o] 1
  have a: "\<exists>msg. jailConf example_world (example_pod\<lparr>Manifest := zero_PodManifest\<rparr>)
              = Inl (Panic msg)"
    by blast
  from jailConf_ip4_addr [where c = example_pod and w = example_world
      and ip = "''10.0.0.2''" and ps = ?ps, OF o] 2 3 4
  have b: "jailConf_line (''ip4.addr'', ''10.0.0.2'') \<in> set (jailConf_lines example_world ?ps)"
    by (simp add: Let_def)
  from 1 2 a b show ?thesis by blast
qed

subsection \<open>The status oracle\<close>

text \<open>
  C1 as stated fails: a status with job id 0 and the dying flag set is not the sentinel
  \<open>NoJailStatus\<close>, so \<open>Status\<close> answers Dying for it, not Stopped.
\<close>

theorem Status_mapping_counterexample:
  "jail_status dying_zero_world [] ''jp-u1'' False = Inr \<lparr>Jid = 0, Dying = True\<rparr> \<and>
   Status dying_zero_world example_pod [] =
     (Inr PodStatusDying, [GetJailStatus ''jp-u1'' False])"
  by (simp add: dying_zero_world_def Status_def jailStatus_def jailName_def MustGetString_def
      example_pod_sel example_host_def NoJailStatus_def)

text \<open>
  C1, amended. When the status query succeeds, \<open>Status\<close> answers Stopped exactly for job
  id 0 with the dying flag clear (the sentinel), Dying exactly when the dying flag is set,
  whatever the job id, and Running exactly for a nonzero job id with the flag clear; it
  never answers Invalid.
\<close>

theorem Status_mapping:
  assumes "jailName c = Inr name" and "jail_status w t name False = Inr status"
  shows "\<exists>r. Status w c t = (Inr r, t @ [GetJailStatus name False]) \<and>
           r \<noteq> PodStatusInvalid \<and>
           (r = PodStatusStopped \<longleftrightarrow> Jid status = 0 \<and> \<not> Dying status) \<and>
           (r = PodStatusRunning \<longleftrightarrow> Jid status \<noteq> 0 \<and> \<not> Dying status) \<and>
           (r = PodStatusDying \<longleftrightarrow> Dying status)"
  using assms
  by (cases status) (auto simp: Status_def jailStatus_def NoJailStatus_def)

theorem Status_mapping_witness:
  "jailName example_pod = Inr ''jp-u1'' \<and>
   jail_status example_world [] ''jp-u1'' False = Inr \<lparr>Jid = 7, Dying = False\<rparr> \<and>
   Status example_world example_pod [] =
     (Inr PodStatusRunning, [GetJailStatus ''jp-u1'' False])"
proof -
  have 1: "jailName example_pod = Inr ''jp-u1''"
    by (simp add: jailName_def MustGetString_def example_pod_sel example_host_def)
  have 2: "jail_status example_world [] ''jp-u1'' False = Inr \<lparr>Jid = 7, Dying = False\<rparr>"
    by (simp add: example_world_def)
  from Status_mapping [OF 1 2] 1 2 show ?thesis
    by auto
qed

subsection \<open>The mount resolver\<close>

lemma findVolume_find:
  "findVolume vols name i =
     (case find (\<lambda>v. vol_Name v = name) vols of
        None \<Rightarrow> None
      | Some v \<Rightarrow> Some (v, i + length (takeWhile (\<lambda>v. vol_Name v \<noteq> name) vols)))"
  by (induction vols arbitrary: i) (auto split: option.splits)

lemma findMountPoint_find: "findMountPoint mps name = find (\<lambda>p. mp_Name p = name) mps"
  by (induction mps) auto

lemma find_None_image: "find (\<lambda>x. f x = a) xs = None \<longleftrightarrow> a \<notin> f ` set xs"
  by (auto simp: find_None_iff)

lemma prepJail_empty_ok:
  assumes "calls_succeed w"
  shows "fst (prepJail_empty w c volNo podPath t) = Inr (Path c [''volumes'', Itoa (int volNo)])"
  using assms
  by (auto simp: prepJail_empty_def calls_succeed_def perform_def os_Stat_def Let_def
      split: sum.splits oserror.splits)

lemma prepJail_mounts_ok:
  assumes ok: "calls_succeed w"
    and tmpl: "im_App (img_Manifest img) = Some imgApp"
    and vols: "\<forall>m \<in> set ms. mnt_Volume m \<in> vol_Name ` set (Volumes (Manifest c))"
    and mps: "\<forall>m \<in> set ms. mnt_MountPoint m \<in> mp_Name ` set (app_MountPoints imgApp)"
  shows "fst (prepJail_mounts w c imgApp ms fulfilled fstab t) =
           Inr (rev (map mnt_MountPoint ms) @ fulfilled, fstab @ map (binding_line c img) ms)"
  using vols mps
proof (induction ms arbitrary: fulfilled fstab t)
  case Nil
  then show ?case by simp
next
  case (Cons m ms)
  from Cons.prems obtain vol where vol:
    "find (\<lambda>v. vol_Name v = mnt_Volume m) (Volumes (Manifest c)) = Some vol"
    by (cases "find (\<lambda>v. vol_Name v = mnt_Volume m) (Volumes (Manifest c))")
       (auto simp: find_None_image)
  from Cons.prems obtain mp where mp:
    "find (\<lambda>p. mp_Name p = mnt_MountPoint m) (app_MountPoints imgApp) = Some mp"
    by (cases "find (\<lambda>p. mp_Name p = mnt_MountPoint m) (app_MountPoints imgApp)")
       (auto simp: find_None_image)
  have IH: "\<And>fulfilled fstab t. fst (prepJail_mounts w c imgApp ms fulfilled fstab t) =
           Inr (rev (map mnt_MountPoint ms) @ fulfilled, fstab @ map (binding_line c img) ms)"
    using Cons.IH Cons.prems by simp
  show ?case
  proof (cases "vol_Kind vol = ''empty''")
    case True
    obtain t1 where e: "prepJail_empty w c
        (length (takeWhile (\<lambda>v. vol_Name v \<noteq> mnt_Volume m) (Volumes (Manifest c))))
        (Path c [''rootfs'', mp_Path mp]) t
        = (Inr (Path c [''volumes'', Itoa (int (length (takeWhile (\<lambda>v. vol_Name v \<noteq> mnt_Volume m)
              (Volumes (Manifest c)))))]), t1)"
      using prepJail_empty_ok [OF ok] by (metis prod.collapse)
    show ?thesis
      by (simp add: findVolume_find findMountPoint_find vol mp True e IH binding_line_def
          declared_MountPoints_def tmpl fstab_binding_def)
  next
    case False
    then show ?thesis
      by (simp add: findVolume_find findMountPoint_find vol mp IH binding_line_def
          declared_MountPoints_def tmpl fstab_binding_def)
  qed
qed

lemma prepJail_empty_trace:
  "\<exists>new. snd (prepJail_empty w c volNo podPath t) = t @ new \<and> list_all mount_event new"
  by (auto simp: prepJail_empty_def perform_def os_Stat_def Let_def
      split: sum.splits oserror.splits option.splits)

lemma prepJail_mounts_trace:
  "\<exists>new. snd (prepJail_mounts w c imgApp ms fulfilled fstab t) = t @ new
          \<and> list_all mount_event new"
proof (induction ms arbitrary: fulfilled fstab t)
  case Nil
  then show ?case by simp
next
  case (Cons m ms)
  show ?case
  proof (cases "findVolume (Volumes (Manifest c)) (mnt_Volume m) 0")
    case None
    then show ?thesis by simp
  next
    case (Some vn)
    obtain vol volNo where vn: "vn = (vol, volNo)" by (cases vn)
    show ?thesis
    proof (cases "findMountPoint (app_MountPoints imgApp) (mnt_MountPoint m)")
      case None
      then show ?thesis using Some vn by simp
    next
      case mp: (Some mntPoint)
      define r where "r = (if vol_Kind vol = ''empty''
          then prepJail_empty w c volNo (Path c [''rootfs'', mp_Path mntPoint]) t
          else (Inr (vol_Source vol), t))"
      have "\<exists>new1. snd r = t @ new1 \<and> list_all mount_event new1"
        using prepJail_empty_trace [of w c volNo "Path c [''rootfs'', mp_Path mntPoint]" t]
        by (cases "vol_Kind vol = ''empty''") (simp_all add: r_def)
      then obtain new1 where n1: "snd r = t @ new1" "list_all mount_event new1"
        by blast
      show ?thesis
      proof (cases "fst r")
        case (Inl f)
        then have "prepJail_mounts w c imgApp (m # ms) fulfilled fstab t = (Inl f, snd r)"
          using Some vn mp by (cases r) (simp add: r_def Let_def)
        then show ?thesis using n1 by simp
      next
        case (Inr hostPath)
        then obtain ful' fstab' where
          "prepJail_mounts w c imgApp (m # ms) fulfilled fstab t
             = prepJail_mounts w c imgApp ms ful' fstab' (snd r)"
          using Some vn mp by (cases r) (simp add: r_def Let_def)
        moreover obtain new2 where
          "snd (prepJail_mounts w c imgApp ms ful' fstab' (snd r)) = snd r @ new2"
          "list_all mount_event new2"
          using Cons.IH by blast
        ultimately show ?thesis using n1 by auto
      qed
    qed
  qed
qed

lemma prepJail_mounts_unknown_volume:
  assumes ok: "calls_succeed w"
    and vols: "\<forall>m \<in> set pre. mnt_Volume m \<in> vol_Name ` set (Volumes (Manifest c))"
    and mps: "\<forall>m \<in> set pre. mnt_MountPoint m \<in> mp_Name ` set (app_MountPoints imgApp)"
    and bad: "mnt_Volume m \<notin> vol_Name ` set (Volumes (Manifest c))"
  shows "fst (prepJail_mounts w c imgApp (pre @ m # post) fulfilled fstab t) =
           Inl (Error (Errorf (''Volume not found: '' @ mnt_Volume m)))"
  using vols mps
proof (induction pre arbitrary: fulfilled fstab t)
  case Nil
  have "find (\<lambda>v. vol_Name v = mnt_Volume m) (Volumes (Manifest c)) = None"
    using bad by (simp add: find_None_image)
  then show ?case by (simp add: findVolume_find)
next
  case (Cons x pre)
  from Cons.prems obtain vol where vol:
    "find (\<lambda>v. vol_Name v = mnt_Volume x) (Volumes (Manifest c)) = Some vol"
    by (cases "find (\<lambda>v. vol_Name v = mnt_Volume x) (Volumes (Manifest c))")
       (auto simp: find_None_image)
  from Cons.prems obtain mp where mp:
    "find (\<lambda>p. mp_Name p = mnt_MountPoint x) (app_MountPoints imgApp) = Some mp"
    by (cases "find (\<lambda>p. mp_Name p = mnt_MountPoint x) (app_MountPoints imgApp)")
       (auto simp: find_None_image)
  have IH: "\<And>fulfilled fstab t. fst (prepJail_mounts w c imgApp (pre @ m # post) fulfilled fstab t) =
           Inl (Error (Errorf (''Volume not found: '' @ mnt_Volume m)))"
    using Cons.IH Cons.prems by simp
  show ?case
  proof (cases "vol_Kind vol = ''empty''")
    case True
    obtain t1 where e: "prepJail_empty w c
        (length (takeWhile (\<lambda>v. vol_Name v \<noteq> mnt_Volume x) (Volumes (Manifest c))))
        (Path c [''rootfs'', mp_Path mp]) t
        = (Inr (Path c [''volumes'', Itoa (int (length (takeWhile (\<lambda>v. vol_Name v \<noteq> mnt_Volume x)
              (Volumes (Manifest c)))))]), t1)"
      using prepJail_empty_ok [OF ok] by (metis prod.collapse)
    show ?thesis
      by (simp add: findVolume_find findMountPoint_find vol mp True e IH)
  next
    case False
    then show ?thesis
      by (simp add: findVolume_find findMountPoint_find vol mp IH)
  qed
qed

text \<open>The three calls that open the processing of an app.\<close>

lemma prepJail_apps_single:
  assumes img: "image_of w t (rta_ImageID app) = Inr img"
    and rd: "read_data w (t @ [GetImageByHash (rta_ImageID app)]) ''/etc/resolv.conf'' = Inr bb"
    and wr: "call_err w (t @ [GetImageByHash (rta_ImageID app), ReadFile ''/etc/resolv.conf''])
               (WriteFile (Path c [''rootfs/etc/resolv.conf'']) bb mode_0644) = None"
  shows "prepJail_apps w c [app] [] t =
     (case im_App (img_Manifest img) of
        None \<Rightarrow> (Inr (compat_lines c img),
                  t @ [GetImageByHash (rta_ImageID app), ReadFile ''/etc/resolv.conf'',
                       WriteFile (Path c [''rootfs/etc/resolv.conf'']) bb mode_0644])
      | Some imgApp \<Rightarrow>
          (case prepJail_mounts w c imgApp (rta_Mounts app) [] (compat_lines c img)
                  (t @ [GetImageByHash (rta_ImageID app), ReadFile ''/etc/resolv.conf'',
                        WriteFile (Path c [''rootfs/etc/resolv.conf'']) bb mode_0644]) of
             (Inl f, t4) \<Rightarrow> (Inl f, t4)
           | (Inr (fulfilled, fstab2), t4) \<Rightarrow>
               if map mp_Name (filter (\<lambda>mntp. mp_Name mntp \<notin> set fulfilled)
                                  (app_MountPoints imgApp)) \<noteq> []
               then (Inl (Error (Errorf
                       (''Unfulfilled mount points for '' @ im_Name (img_Manifest img) @ '': ''
                        @ fmt_names (map mp_Name (filter (\<lambda>mntp. mp_Name mntp \<notin> set fulfilled)
                                  (app_MountPoints imgApp)))))), t4)
               else (Inr fstab2, t4)))"
  using assms
  by (simp add: GetImageByHash_call_def ioutil_ReadFile_def ioutil_WriteFile_def perform_def
      compat_lines_def Let_def split: option.splits sum.splits prod.splits)

lemma resolv_conf_calls:
  assumes ok: "calls_succeed w"
  obtains bb where
    "read_data w (t @ [GetImageByHash h]) ''/etc/resolv.conf'' = Inr bb"
    "call_err w (t @ [GetImageByHash h, ReadFile ''/etc/resolv.conf''])
       (WriteFile (Path c [''rootfs/etc/resolv.conf'']) bb mode_0644) = None"
  using ok unfolding calls_succeed_def by blast

lemma binding_line_shape:
  assumes "mnt_Volume m \<in> vol_Name ` set (Volumes (Manifest c))"
    and "mnt_MountPoint m \<in> mp_Name ` set (declared_MountPoints img)"
  shows "\<exists>hostPath podPath opts. binding_line c img m = fstab_binding hostPath podPath opts
           \<and> (opts = ''ro'' \<or> opts = ''rw'')"
proof -
  from assms obtain vol where vol:
    "find (\<lambda>v. vol_Name v = mnt_Volume m) (Volumes (Manifest c)) = Some vol"
    by (cases "find (\<lambda>v. vol_Name v = mnt_Volume m) (Volumes (Manifest c))")
       (auto simp: find_None_image)
  from assms obtain mp where mp:
    "find (\<lambda>p. mp_Name p = mnt_MountPoint m) (declared_MountPoints img) = Some mp"
    by (cases "find (\<lambda>p. mp_Name p = mnt_MountPoint m) (declared_MountPoints img)")
       (auto simp: find_None_image)
  show ?thesis
    unfolding binding_line_def vol mp fstab_binding_def by (simp; blast)
qed

lemma written_resolv: "\<exists>bb. read_data example_world t ''/etc/resolv.conf'' = Inr bb"
  by (simp add: example_world_def split: option.splits)

lemma example_calls_succeed: "calls_succeed example_world"
  unfolding calls_succeed_def
proof (intro conjI allI)
  show "\<And>t e. call_err example_world t e = None"
    by (simp add: example_world_def)
  show "\<And>t. \<exists>bb. read_data example_world t ''/etc/resolv.conf'' = Inr bb"
    by (rule written_resolv)
  show "\<And>t p msg. stat_data example_world t p \<noteq> Inl (EOther msg)"
    by (simp add: example_world_def split: option.splits)
qed

lemma data_config_calls_succeed: "calls_succeed data_config_world"
  using example_calls_succeed by (simp add: calls_succeed_def data_config_world_def)

text \<open>
  C2. Take a pod whose manifest has a single app, whose image resolves, whose bindings
  each name a volume of the manifest and a mount point declared by the image, and whose
  declared mount points are each bound; let the calls of the resolver succeed. Then the
  loop of the mount resolver returns the mount table \<open>fstab_spec\<close>: the two
  compatibility lines when the \<^verbatim>\<open>os\<close> label of the image is \<^verbatim>\<open>linux\<close> and none
  otherwise, followed by one line for each binding, in the order of the bindings in the
  manifest. When the table is not empty, \<open>prepJail\<close> writes its lines to the fstab file
  of the pod.
\<close>

theorem prepJail_fstab_lines:
  assumes apps: "Apps (Manifest c) = [app]"
    and img: "image_of w t (rta_ImageID app) = Inr img"
    and ok: "calls_succeed w"
    and vols: "\<forall>m \<in> set (rta_Mounts app).
                 mnt_Volume m \<in> vol_Name ` set (Volumes (Manifest c))"
    and mps: "\<forall>m \<in> set (rta_Mounts app).
                 mnt_MountPoint m \<in> mp_Name ` set (declared_MountPoints img)"
    and sat: "\<forall>p \<in> set (declared_MountPoints img).
                 mp_Name p \<in> mnt_MountPoint ` set (rta_Mounts app)"
  shows "fst (prepJail_apps w c (Apps (Manifest c)) [] t) = Inr (fstab_spec c img app) \<and>
         length (compat_lines c img) = (if GetLabel (img_Manifest img) ''os'' = ''linux'' then 2 else 0) \<and>
         length (fstab_spec c img app) =
           length (rta_Mounts app) + (if GetLabel (img_Manifest img) ''os'' = ''linux'' then 2 else 0) \<and>
         (\<forall>m \<in> set (rta_Mounts app). \<exists>hostPath podPath opts.
            binding_line c img m = fstab_binding hostPath podPath opts \<and>
            (opts = ''ro'' \<or> opts = ''rw'')) \<and>
         (fstab_spec c img app \<noteq> [] \<longrightarrow>
            WriteFile (Path c [''fstab'']) (concat (fstab_spec c img app)) mode_0600
              \<in> set (snd (snd (prepJail w c t))))"
proof -
  obtain bb where bb:
    "read_data w (t @ [GetImageByHash (rta_ImageID app)]) ''/etc/resolv.conf'' = Inr bb"
    "call_err w (t @ [GetImageByHash (rta_ImageID app), ReadFile ''/etc/resolv.conf''])
       (WriteFile (Path c [''rootfs/etc/resolv.conf'']) bb mode_0644) = None"
    using ok by (rule resolv_conf_calls)
  let ?t3 = "t @ [GetImageByHash (rta_ImageID app), ReadFile ''/etc/resolv.conf'',
                  WriteFile (Path c [''rootfs/etc/resolv.conf'']) bb mode_0644]"
  have A: "fst (prepJail_apps w c [app] [] t) = Inr (fstab_spec c img app)"
  proof (cases "im_App (img_Manifest img)")
    case None
    then have "rta_Mounts app = []"
      using mps by (cases "rta_Mounts app") (auto simp: declared_MountPoints_def)
    then show ?thesis
      by (simp add: prepJail_apps_single [OF img bb] None fstab_spec_def
          del: prepJail_apps.simps)
  next
    case (Some imgApp)
    have mps': "\<forall>m \<in> set (rta_Mounts app).
                 mnt_MountPoint m \<in> mp_Name ` set (app_MountPoints imgApp)"
      using mps by (simp add: declared_MountPoints_def Some)
    obtain t4 where m: "prepJail_mounts w c imgApp (rta_Mounts app) [] (compat_lines c img) ?t3
        = (Inr (rev (map mnt_MountPoint (rta_Mounts app)) @ [],
                compat_lines c img @ map (binding_line c img) (rta_Mounts app)), t4)"
      using prepJail_mounts_ok [OF ok Some vols mps'] by (metis prod.collapse)
    have none: "filter (\<lambda>mntp. mp_Name mntp \<notin> mnt_MountPoint ` set (rta_Mounts app))
                  (app_MountPoints imgApp) = []"
      using sat by (auto simp: declared_MountPoints_def Some filter_empty_conv)
    show ?thesis
      by (simp add: prepJail_apps_single [OF img bb] Some m none fstab_spec_def
          del: prepJail_apps.simps)
  qed
  have B: "length (compat_lines c img) = (if GetLabel (img_Manifest img) ''os'' = ''linux'' then 2 else 0)"
    by (simp add: compat_lines_def)
  have C: "\<forall>m \<in> set (rta_Mounts app). \<exists>hostPath podPath opts.
            binding_line c img m = fstab_binding hostPath podPath opts \<and>
            (opts = ''ro'' \<or> opts = ''rw'')"
    using vols mps by (blast intro: binding_line_shape)
  have D: "WriteFile (Path c [''fstab'']) (concat (fstab_spec c img app)) mode_0600
              \<in> set (snd (snd (prepJail w c t)))" if ne: "fstab_spec c img app \<noteq> []"
  proof -
    obtain t1 where t1: "prepJail_apps w c [app] [] t = (Inr (fstab_spec c img app), t1)"
      using A by (metis prod.collapse)
    have w: "\<And>t e. call_err w t e = None"
      using ok by (simp add: calls_succeed_def)
    show ?thesis
      using ne by (simp add: prepJail_def apps t1 ioutil_WriteFile_def perform_def w
          del: prepJail_apps.simps split: sum.splits)
  qed
  from A B C D show ?thesis
    by (simp add: apps fstab_spec_def)
qed

theorem prepJail_fstab_lines_witness:
  "fst (prepJail_apps data_config_world two_mount_pod (Apps (Manifest two_mount_pod)) [] [])
     = Inr two_mount_fstab \<and>
   length two_mount_fstab = length (rta_Mounts two_mount_app) + 2 \<and>
   WriteFile ''/jp/pods/u1/fstab'' (concat two_mount_fstab) mode_0600
     \<in> set (snd (snd (prepJail data_config_world two_mount_pod [])))"
proof -
  have 1: "Apps (Manifest two_mount_pod) = [two_mount_app]"
    by (simp add: two_mount_pod_def)
  have 2: "image_of data_config_world [] (rta_ImageID two_mount_app) = Inr data_config_image"
    by (simp add: data_config_world_def)
  have 3: "\<forall>m \<in> set (rta_Mounts two_mount_app).
             mnt_Volume m \<in> vol_Name ` set (Volumes (Manifest two_mount_pod))"
    by (simp add: two_mount_app_def two_mount_pod_def)
  have 4: "\<forall>m \<in> set (rta_Mounts two_mount_app).
             mnt_MountPoint m \<in> mp_Name ` set (declared_MountPoints data_config_image)"
    by (simp add: two_mount_app_def declared_MountPoints_def data_config_image_def
        data_config_imgApp_def)
  have 5: "\<forall>p \<in> set (declared_MountPoints data_config_image).
             mp_Name p \<in> mnt_MountPoint ` set (rta_Mounts two_mount_app)"
    by (simp add: two_mount_app_def declared_MountPoints_def data_config_image_def
        data_config_imgApp_def)
  have 6: "fstab_spec two_mount_pod data_config_image two_mount_app = two_mount_fstab"
    by code_simp
  have 7: "Path two_mount_pod [''fstab''] = ''/jp/pods/u1/fstab''"
    by code_simp
  have 8: "length (rta_Mounts two_mount_app) = 2" "length two_mount_fstab = 4"
    by (simp_all add: two_mount_app_def two_mount_fstab_def)
  have 9: "two_mount_fstab \<noteq> []"
    by (simp add: two_mount_fstab_def)
  from prepJail_fstab_lines [OF 1 2 data_config_calls_succeed 3 4 5]
  have "fst (prepJail_apps data_config_world two_mount_pod (Apps (Manifest two_mount_pod)) [] [])
          = Inr two_mount_fstab"
    and "two_mount_fstab \<noteq> [] \<longrightarrow>
         WriteFile ''/jp/pods/u1/fstab'' (concat two_mount_fstab) mode_0600
           \<in> set (snd (snd (prepJail data_config_world two_mount_pod [])))"
    unfolding 6 7 by blast+
  with 8 9 show ?thesis by simp
qed



text \<open>
  C4 as stated fails: for the pod \<open>unknown_volume_pod\<close>, whose only binding names a
  volume that the manifest does not have, \<open>prepJail\<close> fails with "Volume not found",
  but by then it has written \<^verbatim>\<open>/etc/resolv.conf\<close> into the root filesystem of the pod,
  and that write succeeded.
\<close>

theorem prepJail_unknown_volume_counterexample:
  "fst (prepJail example_world unknown_volume_pod []) =
     Inl (Error (Errorf ''Volume not found: nosuch'')) \<and>
   snd (snd (prepJail example_world unknown_volume_pod [])) =
     [GetImageByHash ''sha512-1'', ReadFile ''/etc/resolv.conf'',
      WriteFile ''/jp/pods/u1/rootfs/etc/resolv.conf'' ''nameserver'' mode_0644] \<and>
   call_err example_world [GetImageByHash ''sha512-1'', ReadFile ''/etc/resolv.conf'']
     (WriteFile ''/jp/pods/u1/rootfs/etc/resolv.conf'' ''nameserver'' mode_0644) = None"
  by code_simp

text \<open>
  C4, amended. Take a pod with a single app whose image resolves and has an app
  template, with the calls of the resolver succeeding, and a binding whose volume is not
  in the manifest, all bindings before it resolving. Then \<open>prepJail\<close> fails with the
  error "Volume not found" for that volume and leaves the pod unchanged. At that point
  the resolver has looked the image up, read the host's \<^verbatim>\<open>/etc/resolv.conf\<close> and
  written it into the root filesystem of the pod; after that it has made only the calls
  of the earlier bindings (create a directory, stat, chmod, chown), so that it has
  written neither the fstab file nor the jail configuration.
\<close>

theorem prepJail_unknown_volume:
  assumes apps: "Apps (Manifest c) = [app]"
    and img: "image_of w t (rta_ImageID app) = Inr img"
    and tmpl: "im_App (img_Manifest img) = Some imgApp"
    and ok: "calls_succeed w"
    and mounts: "rta_Mounts app = pre @ m # post"
    and vols: "\<forall>x \<in> set pre. mnt_Volume x \<in> vol_Name ` set (Volumes (Manifest c))"
    and mps: "\<forall>x \<in> set pre. mnt_MountPoint x \<in> mp_Name ` set (app_MountPoints imgApp)"
    and bad: "mnt_Volume m \<notin> vol_Name ` set (Volumes (Manifest c))"
  shows "\<exists>bb new.
           read_data w (t @ [GetImageByHash (rta_ImageID app)]) ''/etc/resolv.conf'' = Inr bb \<and>
           call_err w (t @ [GetImageByHash (rta_ImageID app), ReadFile ''/etc/resolv.conf''])
             (WriteFile (Path c [''rootfs/etc/resolv.conf'']) bb mode_0644) = None \<and>
           prepJail w c t =
             (Inl (Error (Errorf (''Volume not found: '' @ mnt_Volume m))), c,
              t @ [GetImageByHash (rta_ImageID app), ReadFile ''/etc/resolv.conf'',
                   WriteFile (Path c [''rootfs/etc/resolv.conf'']) bb mode_0644] @ new) \<and>
           list_all mount_event new"
proof -
  obtain bb where bb:
    "read_data w (t @ [GetImageByHash (rta_ImageID app)]) ''/etc/resolv.conf'' = Inr bb"
    "call_err w (t @ [GetImageByHash (rta_ImageID app), ReadFile ''/etc/resolv.conf''])
       (WriteFile (Path c [''rootfs/etc/resolv.conf'']) bb mode_0644) = None"
    using ok by (rule resolv_conf_calls)
  let ?t3 = "t @ [GetImageByHash (rta_ImageID app), ReadFile ''/etc/resolv.conf'',
                  WriteFile (Path c [''rootfs/etc/resolv.conf'']) bb mode_0644]"
  let ?r = "prepJail_mounts w c imgApp (rta_Mounts app) [] (compat_lines c img) ?t3"
  have f: "fst ?r = Inl (Error (Errorf (''Volume not found: '' @ mnt_Volume m)))"
    unfolding mounts by (rule prepJail_mounts_unknown_volume [OF ok vols mps bad])
  obtain new where new: "snd ?r = ?t3 @ new" "list_all mount_event new"
    using prepJail_mounts_trace by blast
  have r: "?r = (Inl (Error (Errorf (''Volume not found: '' @ mnt_Volume m))), ?t3 @ new)"
    using f new(1) by (metis prod.collapse)
  have "prepJail w c t =
          (Inl (Error (Errorf (''Volume not found: '' @ mnt_Volume m))), c, ?t3 @ new)"
    by (simp add: prepJail_def apps prepJail_apps_single [OF img bb] tmpl r
        del: prepJail_apps.simps)
  with bb new(2) show ?thesis
    by (intro exI [of _ bb] exI [of _ new]) simp
qed

theorem prepJail_unknown_volume_witness:
  "fst (prepJail example_world unknown_volume_pod []) =
     Inl (Error (Errorf ''Volume not found: nosuch'')) \<and>
   fst (snd (prepJail example_world unknown_volume_pod [])) = unknown_volume_pod"
proof -
  let ?m = "\<lparr>mnt_Volume = ''nosuch'', mnt_MountPoint = ''data''\<rparr>"
  have 1: "Apps (Manifest unknown_volume_pod) = [unknown_volume_app]"
    by (simp add: unknown_volume_pod_def)
  have 2: "image_of example_world [] (rta_ImageID unknown_volume_app) = Inr example_image"
    by (simp add: example_world_def unknown_volume_app_def example_app_def)
  have 3: "im_App (img_Manifest example_image) = Some example_imgApp"
    by (simp add: example_image_def)
  have 4: "rta_Mounts unknown_volume_app = [] @ ?m # []"
    by (simp add: unknown_volume_app_def)
  have 5: "\<forall>x \<in> set []. mnt_Volume x \<in> vol_Name ` set (Volumes (Manifest unknown_volume_pod))"
    by simp
  have 6: "\<forall>x \<in> set []. mnt_MountPoint x \<in> mp_Name ` set (app_MountPoints example_imgApp)"
    by simp
  have 7: "mnt_Volume ?m \<notin> vol_Name ` set (Volumes (Manifest unknown_volume_pod))"
    by (simp add: unknown_volume_pod_def example_manifest_def)
  from prepJail_unknown_volume [OF 1 2 3 example_calls_succeed 4 5 6 7] show ?thesis
    by auto
qed

subsection \<open>The lifecycle controller\<close>

lemma quiet_refl [simp]: "quiet t t"
  by (simp add: quiet_def)

lemma quiet_trans: "quiet t t1 \<Longrightarrow> quiet t1 t2 \<Longrightarrow> quiet t t2"
  by (auto simp: quiet_def)

lemma quiet_append: "list_all (\<lambda>e. \<not> storage_event e) new \<Longrightarrow> quiet t (t @ new)"
  by (auto simp: quiet_def)

lemma mount_event_not_storage: "mount_event e \<Longrightarrow> \<not> storage_event e"
  by (cases e) auto

lemma prepJail_mounts_quiet:
  "prepJail_mounts w c imgApp ms fulfilled fstab t = (r, t') \<Longrightarrow> quiet t t'"
  using prepJail_mounts_trace [of w c imgApp ms fulfilled fstab t]
  by (auto simp: quiet_def list_all_iff mount_event_not_storage)

lemma prepJail_apps_quiet:
  "prepJail_apps w c apps fstab t = (r, t') \<Longrightarrow> quiet t t'"
proof (induction apps arbitrary: fstab t r t')
  case Nil
  then show ?case by auto
next
  case (Cons app apps)
  have q3: "quiet t (t @ [GetImageByHash (rta_ImageID app), ReadFile ''/etc/resolv.conf'',
                          WriteFile p bb mode])" for p bb mode
    by (rule quiet_append) simp
  have q2: "quiet t (t @ [GetImageByHash (rta_ImageID app), ReadFile ''/etc/resolv.conf''])"
    by (rule quiet_append) simp
  have q1: "quiet t (t @ [GetImageByHash (rta_ImageID app)])"
    by (rule quiet_append) simp
  from Cons.prems show ?case
    by (auto simp: GetImageByHash_call_def ioutil_ReadFile_def ioutil_WriteFile_def
        perform_def Let_def q1 q2 q3
        split: sum.splits option.splits prod.splits if_splits
        dest!: prepJail_mounts_quiet Cons.IH
        intro: quiet_trans [OF q3])
       (blast intro: quiet_trans q3)+
qed

lemma WriteFile_quiet:
  "ioutil_WriteFile w p bb mode t = (r, t') \<Longrightarrow> quiet t t'"
  by (auto simp: ioutil_WriteFile_def perform_def intro!: quiet_append)

lemma prepJail_quiet:
  assumes a: "prepJail w c t = (r, c', t')"
  shows "quiet t t'"
proof (cases "length (Apps (Manifest c)) \<noteq> 1")
  case True
  then show ?thesis using a by (simp add: prepJail_def)
next
  case one: False
  obtain ra t1 where apps: "prepJail_apps w c (Apps (Manifest c)) [] t = (ra, t1)"
    by (cases "prepJail_apps w c (Apps (Manifest c)) [] t")
  then have q1: "quiet t t1"
    by (rule prepJail_apps_quiet)
  show ?thesis
  proof (cases ra)
    case (Inl f)
    then show ?thesis
      using a one apps q1 by (simp add: prepJail_def del: prepJail_apps.simps)
  next
    case (Inr fstab)
    define step where "step =
      (if length fstab > 0 then
         (case ioutil_WriteFile w (Path c [''fstab'']) (concat fstab) mode_0600 t1 of
            (Some err, t2) \<Rightarrow> (Inl (Error (External err)), c, t2)
          | (None, t2) \<Rightarrow>
              (Inr (),
               c\<lparr>Manifest := (Manifest c)
                   \<lparr>Annotations :=
                      Annotations_Set (Annotations (Manifest c))
                        ''jetpack/jail.conf/mount.fstab'' (Path c [''fstab''])\<rparr>\<rparr>,
               t2))
       else (Inr (), c, t1))"
    obtain r2 c2 t2 where step: "step = (r2, c2, t2)"
      by (cases step)
    have q2: "quiet t1 t2"
      using step unfolding step_def
      by (auto split: if_splits prod.splits option.splits dest: WriteFile_quiet)
    have p: "prepJail w c t =
      (case step of
         (Inl f, c2, t2) \<Rightarrow> (Inl f, c2, t2)
       | (Inr u, c2, t2) \<Rightarrow>
           (case jailConf w c2 of
              Inl f \<Rightarrow> (Inl f, c2, t2)
            | Inr conf \<Rightarrow>
                (case ioutil_WriteFile w (Path c2 [''jail.conf'']) conf mode_0400 t2 of
                   (Some err, t3) \<Rightarrow> (Inl (Error (External err)), c2, t3)
                 | (None, t3) \<Rightarrow> (Inr (), c2, t3))))"
      unfolding step_def using one apps Inr
      by (simp add: prepJail_def del: prepJail_apps.simps)
    have r: "(r, c', t') =
      (case r2 of
         Inl f \<Rightarrow> (Inl f, c2, t2)
       | Inr u \<Rightarrow>
           (case jailConf w c2 of
              Inl f \<Rightarrow> (Inl f, c2, t2)
            | Inr conf \<Rightarrow>
                (case ioutil_WriteFile w (Path c2 [''jail.conf'']) conf mode_0400 t2 of
                   (Some err, t3) \<Rightarrow> (Inl (Error (External err)), c2, t3)
                 | (None, t3) \<Rightarrow> (Inr (), c2, t3))))"
      unfolding a [symmetric] p step by (simp split: sum.splits)
    have q3: "quiet t2 t'"
      using r by (auto split: sum.splits prod.splits option.splits dest: WriteFile_quiet)
    from q1 q2 q3 show ?thesis
      by (blast intro: quiet_trans)
  qed
qed


lemma runJail_quiet:
  assumes a: "runJail w c op t = (r, c', t')"
  shows "quiet t t'"
proof -
  obtain r1 c1 t1 where p: "prepJail w c t = (r1, c1, t1)"
    by (cases "prepJail w c t")
  then have q1: "quiet t t1"
    by (rule prepJail_quiet)
  have w1: "quiet t1 (t1 @ [RunCommand prog args])" for prog args
    by (rule quiet_append) simp
  have "quiet t1 t'"
    using a p w1
    by (auto simp: runJail_def perform_def Let_def split: sum.splits option.splits)
  with q1 show ?thesis by (rule quiet_trans)
qed

lemma jailStatus_quiet:
  "jailStatus w c refresh t = (r, t') \<Longrightarrow> quiet t t'"
  by (auto simp: jailStatus_def split: sum.splits intro!: quiet_append)

lemma Status_quiet:
  "Status w c t = (r, t') \<Longrightarrow> quiet t t'"
  by (auto simp: Status_def split: sum.splits prod.splits failure.splits if_splits
      dest!: jailStatus_quiet)

lemma Jid_of_quiet:
  "Jid_of w c t = (r, t') \<Longrightarrow> quiet t t'"
  by (auto simp: Jid_of_def split: sum.splits prod.splits failure.splits if_splits
      dest!: jailStatus_quiet)

lemma Kill_quiet_aux:
  assumes k: "Kill w0 c0 t0 = Some y0"
  shows "quiet t0 (snd (snd y0))"
proof (rule Kill.raw_induct [where P = "\<lambda>w c t y. quiet t (snd (snd y))", OF _ k], goal_cases)
  case (1 Kill' w c t y)
  obtain rs t1 where st: "Status w c t = (rs, t1)"
    by (cases "Status w c t")
  then have q1: "quiet t t1"
    by (rule Status_quiet)
  show ?case
  proof (cases rs)
    case (Inl f)
    then have "y = (Inl f, c, t1)"
      using 1(2) st by simp
    then show ?thesis using q1 by simp
  next
    case (Inr status)
    show ?thesis
    proof (cases status)
      case PodStatusInvalid
      then have "snd (snd y) = t1"
        using 1(2) st Inr by auto
      then show ?thesis using q1 by simp
    next
      case PodStatusRunning
      obtain rj c2 t2 where rj: "runJail w c ''-r'' t1 = (rj, c2, t2)"
        by (cases "runJail w c ''-r'' t1")
      then have q2: "quiet t1 t2"
        by (rule runJail_quiet)
      show ?thesis
      proof (cases rj)
        case (Inl f)
        then have "snd (snd y) = t2"
          using 1(2) st Inr PodStatusRunning rj by auto
        then show ?thesis using q1 q2 by (auto intro: quiet_trans)
      next
        case (Inr u)
        then have "Kill' w c2 t2 = Some y"
          using 1(2) st \<open>rs = Inr status\<close> PodStatusRunning rj by simp
        then have "quiet t2 (snd (snd y))"
          by (rule 1(1))
        then show ?thesis using q1 q2 by (blast intro: quiet_trans)
      qed
    next
      case PodStatusDying
      then have "Kill' w c (t1 @ [Printf_dying, Sleep 2500]) = Some y"
        using 1(2) st Inr by simp
      then have "quiet (t1 @ [Printf_dying, Sleep 2500]) (snd (snd y))"
        by (rule 1(1))
      moreover have "quiet t1 (t1 @ [Printf_dying, Sleep 2500])"
        by (rule quiet_append) simp
      ultimately show ?thesis using q1 by (blast intro: quiet_trans)
    next
      case PodStatusStopped
      then have "snd (snd y) = t1"
        using 1(2) st Inr by auto
      then show ?thesis using q1 by simp
    qed
  qed
qed

lemma Kill_quiet:
  "Kill w c t = Some (r, c', t') \<Longrightarrow> quiet t t'"
  using Kill_quiet_aux [of w c t "(r, c', t')"] by simp

lemma Destroy_storage_trace:
  "\<exists>r s. Destroy_storage w c t = (r, c, t @ s) \<and> list_all storage_event s
          \<and> sorted (map phase s)"
  by (auto simp: Destroy_storage_def getDataset_def perform_def
      split: sum.splits oserror.splits option.splits)

lemma Destroy_storage_dataset_fails:
  assumes "dataset_of w t (''pods/'' @ UUID c) = Inr ds"
    and "call_err w (t @ [GetDataset (''pods/'' @ UUID c)]) (DatasetDestroy ds ''-r'') = Some err"
  shows "Destroy_storage w c t =
           (Inl (Error (External err)), c,
            t @ [GetDataset (''pods/'' @ UUID c), DatasetDestroy ds ''-r''])"
  using assms by (simp add: Destroy_storage_def getDataset_def perform_def)

text \<open>
  C6 as stated fails: in the world \<open>jail_fails_world\<close> the jail of the pod is attached
  (job id 7) and cannot be removed, so \<open>Kill\<close> fails and \<open>Destroy\<close> returns that
  failure; but before \<^verbatim>\<open>jail -r\<close> ran, \<open>Kill\<close> prepared the jail again and wrote
  \<^verbatim>\<open>rootfs/etc/resolv.conf\<close> under the directory of the pod, successfully. The directory
  tree has been written to.
\<close>

theorem Destroy_order_counterexample:
  "fst (Jid_of jail_fails_world example_pod []) = Inr 7 \<and>
   map_option fst (Destroy jail_fails_world example_pod []) =
     Some (Inl (Error (External (EOther ''jail: exit status 1'')))) \<and>
   map_option (take 5 \<circ> snd \<circ> snd) (Destroy jail_fails_world example_pod []) =
     Some [GetJailStatus ''jp-u1'' False, GetJailStatus ''jp-u1'' False,
           GetImageByHash ''sha512-1'', ReadFile ''/etc/resolv.conf'',
           WriteFile ''/jp/pods/u1/rootfs/etc/resolv.conf'' ''nameserver'' mode_0644] \<and>
   call_err jail_fails_world
     [GetJailStatus ''jp-u1'' False, GetJailStatus ''jp-u1'' False,
      GetImageByHash ''sha512-1'', ReadFile ''/etc/resolv.conf'']
     (WriteFile ''/jp/pods/u1/rootfs/etc/resolv.conf'' ''nameserver'' mode_0644) = None \<and>
   Path example_pod [] = ''/jp/pods/u1'' \<and>
   HasPrefix ''/jp/pods/u1/rootfs/etc/resolv.conf'' (Path example_pod [])"
  by code_simp

text \<open>
  C6, amended. Take a pod whose jail is attached (the job id is not 0) and let \<open>Kill\<close>
  return. Up to the return of \<open>Kill\<close> no call looks the dataset up, destroys it or
  removes the directory tree. If \<open>Kill\<close> fails, \<open>Destroy\<close> returns that failure and
  makes no further call. If \<open>Kill\<close> succeeds, every further call of \<open>Destroy\<close> is a
  storage call, the calls on the dataset coming before the removal of the directory tree;
  and if the destruction of the dataset fails, \<open>Destroy\<close> returns that failure with the
  destruction as its last call, so that the directory tree is not removed.
\<close>

theorem Destroy_order:
  assumes jid: "Jid_of w c t = (Inr jid, t1)"
    and attached: "jid \<noteq> 0"
    and kill: "Kill w c t1 = Some (rk, c2, t2)"
  shows "(\<exists>k. t2 = t @ k \<and> list_all (\<lambda>e. \<not> storage_event e) k) \<and>
         (\<forall>f. rk = Inl f \<longrightarrow> Destroy w c t = Some (Inl f, c2, t2)) \<and>
         (rk = Inr () \<longrightarrow>
            (\<exists>r s. Destroy w c t = Some (r, c2, t2 @ s) \<and> list_all storage_event s
                    \<and> sorted (map phase s))) \<and>
         (\<forall>ds err.
            rk = Inr () \<and>
            dataset_of w t2 (''pods/'' @ UUID c2) = Inr ds \<and>
            call_err w (t2 @ [GetDataset (''pods/'' @ UUID c2)]) (DatasetDestroy ds ''-r'')
              = Some err \<longrightarrow>
            Destroy w c t =
              Some (Inl (Error (External err)), c2,
                    t2 @ [GetDataset (''pods/'' @ UUID c2), DatasetDestroy ds ''-r'']))"
proof -
  have "quiet t t1"
    using jid by (rule Jid_of_quiet)
  moreover have "quiet t1 t2"
    using kill by (rule Kill_quiet)
  ultimately have "quiet t t2"
    by (rule quiet_trans)
  then have A: "\<exists>k. t2 = t @ k \<and> list_all (\<lambda>e. \<not> storage_event e) k"
    by (simp add: quiet_def)
  have B: "\<forall>f. rk = Inl f \<longrightarrow> Destroy w c t = Some (Inl f, c2, t2)"
    using jid attached kill by (simp add: Destroy_def)
  have C: "rk = Inr () \<longrightarrow> Destroy w c t = Some (Destroy_storage w c2 t2)"
    using jid attached kill by (simp add: Destroy_def)
  have D: "rk = Inr () \<longrightarrow>
            (\<exists>r s. Destroy w c t = Some (r, c2, t2 @ s) \<and> list_all storage_event s
                    \<and> sorted (map phase s))"
    using C Destroy_storage_trace [of w c2 t2] by auto
  have E: "\<forall>ds err.
            rk = Inr () \<and>
            dataset_of w t2 (''pods/'' @ UUID c2) = Inr ds \<and>
            call_err w (t2 @ [GetDataset (''pods/'' @ UUID c2)]) (DatasetDestroy ds ''-r'')
              = Some err \<longrightarrow>
            Destroy w c t =
              Some (Inl (Error (External err)), c2,
                    t2 @ [GetDataset (''pods/'' @ UUID c2), DatasetDestroy ds ''-r''])"
    using C by (auto simp: Destroy_storage_dataset_fails)
  from A B D E show ?thesis by blast
qed

theorem Destroy_order_witness:
  "(\<exists>c2 t2. Destroy jail_fails_world example_pod [] =
              Some (Inl (Error (External (EOther ''jail: exit status 1''))), c2, t2) \<and>
            list_all (\<lambda>e. \<not> storage_event e) t2) \<and>
   (\<exists>c2 t2. Destroy dataset_busy_world example_pod [] =
              Some (Inl (Error (External (EOther ''dataset is busy''))), c2,
                    t2 @ [GetDataset (''pods/'' @ UUID c2),
                          DatasetDestroy (''zroot/pods/'' @ UUID c2) ''-r'']) \<and>
            list_all (\<lambda>e. \<not> storage_event e) t2)"
proof -
  have j1: "Jid_of jail_fails_world example_pod [] = (Inr 7, [GetJailStatus ''jp-u1'' False])"
    by (simp add: Jid_of_def jailStatus_def jailName_def MustGetString_def example_pod_sel
        example_host_def jail_fails_world_def example_world_def)
  have j2: "Jid_of dataset_busy_world example_pod [] = (Inr 7, [GetJailStatus ''jp-u1'' False])"
    by (simp add: Jid_of_def jailStatus_def jailName_def MustGetString_def example_pod_sel
        example_host_def dataset_busy_world_def example_world_def)
  have n: "(7::int) \<noteq> 0" by simp
  have "\<not> Option.is_none (Kill jail_fails_world example_pod [GetJailStatus ''jp-u1'' False])"
    by code_simp
  then obtain rk c2 t2 where
    k1: "Kill jail_fails_world example_pod [GetJailStatus ''jp-u1'' False] = Some (rk, c2, t2)"
    by (auto simp: Option.is_none_def)
  have "map_option fst (Kill jail_fails_world example_pod [GetJailStatus ''jp-u1'' False])
          = Some (Inl (Error (External (EOther ''jail: exit status 1''))))"
    by code_simp
  then have rk: "rk = Inl (Error (External (EOther ''jail: exit status 1'')))"
    by (simp add: k1)
  from Destroy_order [OF j1 n k1] rk
  have A: "\<exists>c2 t2. Destroy jail_fails_world example_pod [] =
              Some (Inl (Error (External (EOther ''jail: exit status 1''))), c2, t2) \<and>
            list_all (\<lambda>e. \<not> storage_event e) t2"
    by auto
  have "\<not> Option.is_none (Kill dataset_busy_world example_pod [GetJailStatus ''jp-u1'' False])"
    by code_simp
  then obtain rk' c3 t3 where
    k2: "Kill dataset_busy_world example_pod [GetJailStatus ''jp-u1'' False] = Some (rk', c3, t3)"
    by (auto simp: Option.is_none_def)
  have "map_option fst (Kill dataset_busy_world example_pod [GetJailStatus ''jp-u1'' False])
          = Some (Inr ())"
    by code_simp
  then have rk': "rk' = Inr ()"
    by (simp add: k2)
  have d: "dataset_of dataset_busy_world t3 (''pods/'' @ UUID c3) = Inr (''zroot/pods/'' @ UUID c3)"
    by (simp add: dataset_busy_world_def example_world_def)
  have e: "call_err dataset_busy_world (t3 @ [GetDataset (''pods/'' @ UUID c3)])
             (DatasetDestroy (''zroot/pods/'' @ UUID c3) ''-r'') = Some (EOther ''dataset is busy'')"
    by (simp add: dataset_busy_world_def)
  from Destroy_order [OF j2 n k2] rk' d e
  have B: "\<exists>c2 t2. Destroy dataset_busy_world example_pod [] =
              Some (Inl (Error (External (EOther ''dataset is busy''))), c2,
                    t2 @ [GetDataset (''pods/'' @ UUID c2),
                          DatasetDestroy (''zroot/pods/'' @ UUID c2) ''-r'']) \<and>
            list_all (\<lambda>e. \<not> storage_event e) t2"
    by auto
  from A B show ?thesis by blast
qed

end
